theory Spec2Isabelle
  imports Main "HOL-Library.Sublist"
begin

section \<open>Text and exceptions\<close>

text \<open>
  Python's \<^verbatim>\<open>str\<close> is modelled by \<^typ>\<open>string\<close>: a list of characters, each
  character standing for the code point of the same number (0 to 255). The operations
  below are Python's on that range. An exception is a value of \<open>pyexc\<close>; a computation
  that may raise returns \<open>pyexc + 'a\<close>, with \<open>Inl\<close> for the raised exception. A value
  of \<open>pyexc\<close> is an instance of Python's class \<^verbatim>\<open>Exception\<close> whose \<^verbatim>\<open>str\<close> returns;
  \<open>Raised m\<close> is such an exception of a library or a collaborator, with its message.
  The scanner and the fetcher are modelled with these exceptions only. The hooks, whose
  collaborators may raise anything, have the wider type \<open>raised\<close> below.
\<close>

datatype pyexc = TypeError | AttributeError | KeyError | ValueError | Raised string

definition py_isspace :: "char \<Rightarrow> bool" where
  \<comment> \<open>\<^verbatim>\<open>str.isspace\<close> on one character; also what \<^verbatim>\<open>\s\<close> matches in a str pattern\<close>
  "py_isspace c =
     (let n = (of_char c :: nat)
      in (9 \<le> n \<and> n \<le> 13) \<or> (28 \<le> n \<and> n \<le> 32) \<or> n = 133 \<or> n = 160)"

definition py_strip :: "string \<Rightarrow> string" where
  \<comment> \<open>\<^verbatim>\<open>s.strip()\<close>\<close>
  "py_strip s = rev (dropWhile py_isspace (rev (dropWhile py_isspace s)))"

fun py_in :: "string \<Rightarrow> string \<Rightarrow> bool" where
  \<comment> \<open>\<^verbatim>\<open>p in s\<close> for two strings: \<open>p\<close> occurs in \<open>s\<close> as a contiguous block\<close>
  "py_in p [] = (p = [])"
| "py_in p (c # cs) = (prefix p (c # cs) \<or> py_in p cs)"

section \<open>NaobaijinTagParser\<close>

text \<open>
  The HTML tokenizer (Python's \<^verbatim>\<open>html.parser.HTMLParser\<close>) is outside the repository. It
  delivers a sequence of events to the three handlers the class overrides. An attribute
  written without a value carries Python's \<^verbatim>\<open>None\<close>, here \<open>None\<close>.
\<close>

type_synonym attrs = "(string \<times> string option) list"

datatype event = StartTag string attrs | EndTag string | Data string

record parser_state =
  tags :: "string list"
  in_tag_pill :: bool
  current_tag_text :: "string list"
  div_depth :: int
  expecting_text :: bool
  in_main_tags_container :: bool
  main_container_depth :: int

definition parser_init :: parser_state where
  \<comment> \<open>\<^verbatim>\<open>__init__\<close>\<close>
  "parser_init =
     \<lparr>tags = [], in_tag_pill = False, current_tag_text = [], div_depth = 0,
      expecting_text = False, in_main_tags_container = False, main_container_depth = 0\<rparr>"

definition tag_class_match_here :: "string \<Rightarrow> bool" where
  \<comment> \<open>the pattern \<^verbatim>\<open>pill_a2c9e8\s+small_a2c9e8\<close> matches at the start of the string: after
      the first word at least one whitespace character, and the second word right after
      the whole run of whitespace (its first letter is no whitespace, so giving back
      part of the run never helps)\<close>
  "tag_class_match_here s =
     (prefix ''pill_a2c9e8'' s \<and>
      (let r = drop (length ''pill_a2c9e8'') s
       in r \<noteq> [] \<and> py_isspace (hd r) \<and> prefix ''small_a2c9e8'' (dropWhile py_isspace r)))"

fun tag_class_pattern_search :: "string \<Rightarrow> bool" where
  \<comment> \<open>\<^verbatim>\<open>self.tag_class_pattern.search(class_attr)\<close> is not \<^verbatim>\<open>None\<close>\<close>
  "tag_class_pattern_search [] = False"
| "tag_class_pattern_search (c # cs) =
     (tag_class_match_here (c # cs) \<or> tag_class_pattern_search cs)"

definition attrs_get_class :: "attrs \<Rightarrow> string option" where
  \<comment> \<open>\<^verbatim>\<open>dict(attrs).get('class', '')\<close>: the last \<^verbatim>\<open>class\<close> attribute wins; \<open>None\<close> is
      Python's \<^verbatim>\<open>None\<close>, the value of an attribute written without one\<close>
  "attrs_get_class attrs =
     (case map_of (rev attrs) ''class'' of None \<Rightarrow> Some [] | Some v \<Rightarrow> v)"

definition starttag_main :: "parser_state \<Rightarrow> string \<Rightarrow> parser_state" where
  \<comment> \<open>lines 38 to 42 of \<^verbatim>\<open>handle_starttag\<close>\<close>
  "starttag_main s class_attr =
     (if py_in ''tags_e5a45e'' class_attr
      then s\<lparr>in_main_tags_container := True, main_container_depth := 1\<rparr>
      else if in_main_tags_container s
      then s\<lparr>main_container_depth := main_container_depth s + 1\<rparr>
      else s)"

definition starttag_pill :: "parser_state \<Rightarrow> string \<Rightarrow> parser_state" where
  \<comment> \<open>lines 45 to 60 of \<^verbatim>\<open>handle_starttag\<close>\<close>
  "starttag_pill s class_attr =
     (if in_main_tags_container s then
        (if tag_class_pattern_search class_attr then
           (if \<not> py_in ''defaultColor__4bd52'' class_attr
            then s\<lparr>in_tag_pill := True, div_depth := 1, expecting_text := True,
                   current_tag_text := []\<rparr>
            else s)
         else if in_tag_pill s then
           (let s' = s\<lparr>div_depth := div_depth s + 1\<rparr>
            in if expecting_text s' \<and> py_in ''lineClamp1__4bd52'' class_attr
               then s'\<lparr>expecting_text := False\<rparr> else s')
         else s)
      else s)"

definition handle_starttag :: "parser_state \<Rightarrow> string \<Rightarrow> attrs \<Rightarrow> pyexc + parser_state" where
  \<comment> \<open>\<^verbatim>\<open>'tags_e5a45e' in class_attr\<close> raises TypeError when \<^verbatim>\<open>class_attr\<close> is \<^verbatim>\<open>None\<close>\<close>
  "handle_starttag s tag attrs =
     (if tag = ''div'' then
        (case attrs_get_class attrs of
           None \<Rightarrow> Inl TypeError
         | Some class_attr \<Rightarrow> Inr (starttag_pill (starttag_main s class_attr) class_attr))
      else Inr s)"

definition endtag_main :: "parser_state \<Rightarrow> parser_state" where
  \<comment> \<open>lines 65 to 68 of \<^verbatim>\<open>handle_endtag\<close>\<close>
  "endtag_main s =
     (if in_main_tags_container s then
        (let s' = s\<lparr>main_container_depth := main_container_depth s - 1\<rparr>
         in if main_container_depth s' = 0 then s'\<lparr>in_main_tags_container := False\<rparr> else s')
      else s)"

definition finish_pill :: "parser_state \<Rightarrow> parser_state" where
  \<comment> \<open>lines 75 to 80 of \<^verbatim>\<open>handle_endtag\<close>\<close>
  "finish_pill s =
     (let tag_text = py_strip (concat (current_tag_text s));
          s' = (if tag_text \<noteq> [] \<and> \<not> prefix ''+'' tag_text \<and> tag_text \<notin> set (tags s)
                then s\<lparr>tags := tags s @ [tag_text]\<rparr> else s)
      in s'\<lparr>in_tag_pill := False, current_tag_text := []\<rparr>)"

definition endtag_pill :: "parser_state \<Rightarrow> parser_state" where
  \<comment> \<open>lines 71 to 80 of \<^verbatim>\<open>handle_endtag\<close>\<close>
  "endtag_pill s =
     (if in_tag_pill s then
        (let s' = s\<lparr>div_depth := div_depth s - 1\<rparr>
         in if div_depth s' = 0 then finish_pill s' else s')
      else s)"

definition handle_endtag :: "parser_state \<Rightarrow> string \<Rightarrow> parser_state" where
  "handle_endtag s tag = (if tag = ''div'' then endtag_pill (endtag_main s) else s)"

definition handle_data :: "parser_state \<Rightarrow> string \<Rightarrow> parser_state" where
  "handle_data s data =
     (if in_tag_pill s then s\<lparr>current_tag_text := current_tag_text s @ [data]\<rparr> else s)"

definition handle_event :: "parser_state \<Rightarrow> event \<Rightarrow> pyexc + parser_state" where
  "handle_event s ev =
     (case ev of
        StartTag tag attrs \<Rightarrow> handle_starttag s tag attrs
      | EndTag tag \<Rightarrow> Inr (handle_endtag s tag)
      | Data data \<Rightarrow> Inr (handle_data s data))"

fun feed_events :: "parser_state \<Rightarrow> event list \<Rightarrow> pyexc + parser_state" where
  \<comment> \<open>the handlers run on the events in order; an exception of a handler ends the run\<close>
  "feed_events s [] = Inr s"
| "feed_events s (ev # evs) =
     (case handle_event s ev of Inl e \<Rightarrow> Inl e | Inr s' \<Rightarrow> feed_events s' evs)"

section \<open>TagProcessor\<close>

record 'a tag_processor =
  exclude_tags :: "'a set"
  replace_rules :: "'a \<rightharpoonup> 'a"

definition new_tag_processor :: "'a list option \<Rightarrow> ('a \<rightharpoonup> 'a) option \<Rightarrow> 'a tag_processor" where
  \<comment> \<open>\<^verbatim>\<open>__init__\<close>: \<^verbatim>\<open>set(exclude_tags or [])\<close>, \<^verbatim>\<open>replace_rules or {}\<close>\<close>
  "new_tag_processor ex rr =
     \<lparr>exclude_tags = (case ex of None \<Rightarrow> {} | Some xs \<Rightarrow> set xs),
      replace_rules = (case rr of None \<Rightarrow> Map.empty | Some m \<Rightarrow> m)\<rparr>"

fun process_loop :: "'a tag_processor \<Rightarrow> 'a list \<Rightarrow> 'a list \<Rightarrow> 'a list" where
  \<comment> \<open>the \<^verbatim>\<open>for\<close> loop of \<^verbatim>\<open>process\<close>, with \<^verbatim>\<open>result\<close> as it stands\<close>
  "process_loop p result [] = result"
| "process_loop p result (tag # rest) =
     (if tag \<in> exclude_tags p then process_loop p result rest
      else
        (let processed_tag = (case replace_rules p tag of None \<Rightarrow> tag | Some v \<Rightarrow> v)
         in if processed_tag \<notin> set result
            then process_loop p (result @ [processed_tag]) rest
            else process_loop p result rest))"

definition process :: "'a tag_processor \<Rightarrow> 'a list \<Rightarrow> 'a list" where
  "process p tgs = process_loop p [] tgs"

fun merge_loop :: "'a list \<Rightarrow> 'a list \<Rightarrow> 'a list" where
  \<comment> \<open>the \<^verbatim>\<open>for\<close> loop of \<^verbatim>\<open>merge_tags\<close>\<close>
  "merge_loop merged [] = merged"
| "merge_loop merged (tag # rest) =
     (if tag \<notin> set merged then merge_loop (merged @ [tag]) rest else merge_loop merged rest)"

definition merge_tags :: "'a list option \<Rightarrow> 'a list \<Rightarrow> string \<Rightarrow> 'a list" where
  \<comment> \<open>\<^verbatim>\<open>existing_tags\<close> may be \<^verbatim>\<open>None\<close>: \<^verbatim>\<open>list(existing_tags) if existing_tags else []\<close>\<close>
  "merge_tags existing_tags new_tags mode =
     (if mode = ''replace'' then new_tags
      else merge_loop (case existing_tags of None \<Rightarrow> [] | Some xs \<Rightarrow> xs) new_tags)"

section \<open>ForumTagFetcher\<close>

definition py_lower_char :: "char \<Rightarrow> char" where
  \<comment> \<open>\<^verbatim>\<open>str.lower\<close> on one character of the range 0 to 255\<close>
  "py_lower_char c =
     (let n = (of_char c :: nat)
      in if (65 \<le> n \<and> n \<le> 90) \<or> (192 \<le> n \<and> n \<le> 222 \<and> n \<noteq> 215)
         then char_of (n + 32) else c)"

definition py_lower :: "string \<Rightarrow> string" where
  "py_lower s = map py_lower_char s"

definition py_rstrip_slash :: "string \<Rightarrow> string" where
  \<comment> \<open>\<^verbatim>\<open>url.rstrip('/')\<close>\<close>
  "py_rstrip_slash s = rev (dropWhile (\<lambda>c. c = CHR ''/'') (rev s))"

definition NAOBAIJIN_DOMAINS :: "string list" where
  "NAOBAIJIN_DOMAINS = [''naobaijin.app'', ''www.naobaijin.app'']"

text \<open>
  What the fetcher calls outside the repository is a parameter of the model:
  \<^item> \<open>urlparse_netloc url\<close> is \<^verbatim>\<open>urlparse(url).netloc\<close> of the standard library, or the
    exception \<^verbatim>\<open>urlparse\<close> raises;
  \<^item> \<open>http_get log url\<close> is \<^verbatim>\<open>session.get(url, timeout)\<close> followed by
    \<^verbatim>\<open>raise_for_status()\<close>: the text of the response, or the exception raised. The
    answer may depend on \<open>log\<close>, the requests made before, in order;
  \<^item> \<open>html_events text\<close> is the sequence of events \<^verbatim>\<open>HTMLParser.feed\<close> and
    \<^verbatim>\<open>close\<close> deliver for \<open>text\<close>, or the exception the tokenizer raises;
  \<^item> \<open>self_extract_title text\<close> is the method call \<^verbatim>\<open>self._extract_title(text)\<close>: the
    statements about the fetcher hold for any function in its place, and \<open>extract_title\<close>
    below is the model of the method the class defines.
\<close>

record fetcher_env =
  urlparse_netloc :: "string \<Rightarrow> pyexc + string"
  http_get :: "string list \<Rightarrow> string \<Rightarrow> pyexc + string"
  html_events :: "string \<Rightarrow> pyexc + event list"
  self_extract_title :: "string \<Rightarrow> string option"

definition is_valid_naobaijin_url :: "(string \<Rightarrow> pyexc + string) \<Rightarrow> string \<Rightarrow> bool" where
  \<comment> \<open>the bare \<^verbatim>\<open>except\<close> turns every exception into \<^verbatim>\<open>False\<close>\<close>
  "is_valid_naobaijin_url parse_netloc url =
     (if url = [] then False
      else
        (case parse_netloc url of
           Inl e \<Rightarrow> False
         | Inr netloc \<Rightarrow>
             (let domain = py_lower netloc
              in list_ex (\<lambda>d. suffix d domain) NAOBAIJIN_DOMAINS)))"

text \<open>
  The messages of the fetcher are fixed texts; the model names them. \<open>Msg_no_tags\<close> is
  the text \<^verbatim>\<open>_try_fetch\<close> returns when the page has no tag, \<open>Msg_invalid_url\<close> and
  \<open>Msg_tags_not_found\<close> are the two error texts of \<^verbatim>\<open>fetch_tags\<close> (invalid forum URL;
  no tag information found, the post may need a login or the page format differs), and
  \<open>Msg_exception e\<close> is \<^verbatim>\<open>str(e)\<close>.
\<close>

datatype message = Msg_no_tags | Msg_invalid_url | Msg_tags_not_found | Msg_exception pyexc

type_synonym try_result = "string list option \<times> string option \<times> message option"

definition try_fetch :: "fetcher_env \<Rightarrow> string list \<Rightarrow> string \<Rightarrow> try_result \<times> string list" where
  \<comment> \<open>\<^verbatim>\<open>_try_fetch\<close>: the triple \<^verbatim>\<open>(tags, title, error)\<close>, and the log of requests with
      this one added\<close>
  "try_fetch env log url =
     (case http_get env log url of
        Inl e \<Rightarrow> ((None, None, Some (Msg_exception e)), log @ [url])
      | Inr text \<Rightarrow>
          (case html_events env text of
             Inl e \<Rightarrow> ((None, None, Some (Msg_exception e)), log @ [url])
           | Inr evs \<Rightarrow>
               (case feed_events parser_init evs of
                  Inl e \<Rightarrow> ((None, None, Some (Msg_exception e)), log @ [url])
                | Inr s \<Rightarrow>
                    (let title = self_extract_title env text
                     in if tags s = [] then ((None, title, Some Msg_no_tags), log @ [url])
                        else ((Some (tags s), title, None), log @ [url])))))"

record fetch_result =
  success :: bool
  result_tags :: "string list"
  error :: "message option"
  title :: "string option"

definition tags_truthy :: "string list option \<Rightarrow> bool" where
  \<comment> \<open>\<^verbatim>\<open>if tags:\<close> for \<^verbatim>\<open>None\<close> or a list\<close>
  "tags_truthy t = (case t of None \<Rightarrow> False | Some ts \<Rightarrow> ts \<noteq> [])"

definition tags_list :: "string list option \<Rightarrow> string list" where
  \<comment> \<open>the list \<^verbatim>\<open>tags\<close> holds where \<^verbatim>\<open>if tags:\<close> has passed\<close>
  "tags_list t = (case t of None \<Rightarrow> [] | Some ts \<Rightarrow> ts)"

definition title_or :: "string option \<Rightarrow> string option \<Rightarrow> string option" where
  \<comment> \<open>\<^verbatim>\<open>a or b\<close> for two values that are \<^verbatim>\<open>None\<close> or a string\<close>
  "title_or a b = (case a of None \<Rightarrow> b | Some s \<Rightarrow> if s \<noteq> [] then a else b)"

definition fetch_tags :: "fetcher_env \<Rightarrow> string \<Rightarrow> fetch_result \<times> string list" where
  \<comment> \<open>the result dictionary, and the requests made, in order\<close>
  "fetch_tags env url =
     (if \<not> is_valid_naobaijin_url (urlparse_netloc env) url then
        (\<lparr>success = False, result_tags = [], error = Some Msg_invalid_url, title = None\<rparr>, [])
      else
        (let url' = py_rstrip_slash url;
             first_page_url = url' @ ''/0'';
             ((tags1, title1, error1), log1) = try_fetch env [] first_page_url
         in if tags_truthy tags1 then
              (\<lparr>success = True, result_tags = tags_list tags1, error = None,
                title = title1\<rparr>, log1)
            else
              (let ((tags2, title2, error2), log2) = try_fetch env log1 url'
               in if tags_truthy tags2 then
                    (\<lparr>success = True, result_tags = tags_list tags2, error = None,
                      title = title_or title2 title1\<rparr>, log2)
                  else
                    (\<lparr>success = False, result_tags = [], error = Some Msg_tags_not_found,
                      title = title_or title1 title2\<rparr>, log2))))"

subsection \<open>The netloc of the standard library\<close>

text \<open>
  \<open>plain_netloc url\<close> is \<^verbatim>\<open>urlparse(url).netloc\<close> as CPython 3.11 computes it for a
  \<^verbatim>\<open>str\<close> of code points below 256, or the ValueError it raises. The steps are those of
  \<^verbatim>\<open>urllib.parse.urlsplit\<close>: leading characters up to the space are stripped; tabs,
  carriage returns and line feeds are removed; a leading scheme (a letter, then letters,
  digits, \<^verbatim>\<open>+\<close>, \<^verbatim>\<open>-\<close>, \<^verbatim>\<open>.\<close>, up to the first colon) is split off; after \<^verbatim>\<open>//\<close> the
  netloc runs to the first of \<^verbatim>\<open>/\<close>, \<^verbatim>\<open>?\<close>, \<^verbatim>\<open>#\<close>; a netloc with one square bracket
  and not the other raises, and so does a bracketed host that is neither an IPvFuture
  address nor an IPv6 address (\<^verbatim>\<open>ipaddress.ip_address\<close>). The last check of the
  library, on the NFKC form of a non-ASCII netloc, never raises on this range of code
  points. It serves at concrete inputs; every general statement is about an arbitrary
  parser.
\<close>

definition is_scheme_char :: "char \<Rightarrow> bool" where
  "is_scheme_char c =
     (let n = (of_char c :: nat)
      in (97 \<le> n \<and> n \<le> 122) \<or> (65 \<le> n \<and> n \<le> 90) \<or> (48 \<le> n \<and> n \<le> 57) \<or>
         c = CHR ''+'' \<or> c = CHR ''-'' \<or> c = CHR ''.'')"

definition is_ascii_alpha :: "char \<Rightarrow> bool" where
  "is_ascii_alpha c =
     (let n = (of_char c :: nat) in (97 \<le> n \<and> n \<le> 122) \<or> (65 \<le> n \<and> n \<le> 90))"

definition is_ascii_digit :: "char \<Rightarrow> bool" where
  "is_ascii_digit c = (let n = (of_char c :: nat) in 48 \<le> n \<and> n \<le> 57)"

definition is_hex_digit :: "char \<Rightarrow> bool" where
  "is_hex_digit c =
     (let n = (of_char c :: nat)
      in (48 \<le> n \<and> n \<le> 57) \<or> (97 \<le> n \<and> n \<le> 102) \<or> (65 \<le> n \<and> n \<le> 70))"

fun split_on :: "char \<Rightarrow> string \<Rightarrow> string list" where
  \<comment> \<open>\<^verbatim>\<open>s.split(c)\<close> for a separator of one character\<close>
  "split_on c [] = [[]]"
| "split_on c (x # xs) =
     (if x = c then [] # split_on c xs
      else (case split_on c xs of [] \<Rightarrow> [[x]] | p # ps \<Rightarrow> (x # p) # ps))"

definition decimal_value :: "string \<Rightarrow> nat" where
  \<comment> \<open>\<^verbatim>\<open>int(s, 10)\<close> for a string of ASCII digits\<close>
  "decimal_value s = foldl (\<lambda>n c. 10 * n + (of_char c - 48)) 0 s"

definition valid_octet :: "string \<Rightarrow> bool" where
  \<comment> \<open>\<^verbatim>\<open>_parse_octet\<close> returns: digits only, at most three, no leading zero, at most 255\<close>
  "valid_octet s =
     (s \<noteq> [] \<and> list_all is_ascii_digit s \<and> length s \<le> 3 \<and>
      (s = ''0'' \<or> hd s \<noteq> CHR ''0'') \<and> decimal_value s \<le> 255)"

definition valid_ipv4 :: "string \<Rightarrow> bool" where
  \<comment> \<open>\<^verbatim>\<open>ipaddress.IPv4Address(s)\<close> returns\<close>
  "valid_ipv4 s =
     (CHR ''/'' \<notin> set s \<and> s \<noteq> [] \<and>
      (let octets = split_on (CHR ''.'') s
       in length octets = 4 \<and> list_all valid_octet octets))"

definition valid_hextet :: "string \<Rightarrow> bool" where
  \<comment> \<open>\<^verbatim>\<open>_parse_hextet\<close> returns: one to four hexadecimal digits\<close>
  "valid_hextet s = (list_all is_hex_digit s \<and> length s \<le> 4 \<and> s \<noteq> [])"

definition ipv6_parts_ok :: "string list \<Rightarrow> bool" where
  \<comment> \<open>the checks of \<^verbatim>\<open>_ip_int_from_string\<close> on the parts between the colons: at most
      nine parts; without an empty inner part, eight hextets; with one (the \<^verbatim>\<open>::\<close>), at
      most seven hextets around it, and an empty first or last part only next to it\<close>
  "ipv6_parts_ok parts =
     (let n = length parts;
          skips = filter (\<lambda>i. parts ! i = []) [1 ..< n - 1]
      in n \<le> 9 \<and>
         (case skips of
            [] \<Rightarrow> n = 8 \<and> hd parts \<noteq> [] \<and> last parts \<noteq> [] \<and> list_all valid_hextet parts
          | [skip_index] \<Rightarrow>
              (let parts_hi = (if hd parts = [] then skip_index - 1 else skip_index);
                   parts_lo = (if last parts = [] then n - skip_index - 2 else n - skip_index - 1)
               in (if hd parts = [] then parts_hi = 0 else True) \<and>
                  (if last parts = [] then parts_lo = 0 else True) \<and>
                  parts_hi + parts_lo \<le> 7 \<and>
                  list_all valid_hextet (take parts_hi parts) \<and>
                  list_all valid_hextet (drop (n - parts_lo) parts))
          | _ \<Rightarrow> False))"

definition valid_ipv6 :: "string \<Rightarrow> bool" where
  \<comment> \<open>\<^verbatim>\<open>ipaddress.IPv6Address(s)\<close> returns: an optional scope id after \<^verbatim>\<open>%\<close>, at least
      three parts, an optional IPv4 suffix (it stands for two hextets, here \<^verbatim>\<open>0\<close> and
      \<^verbatim>\<open>0\<close>)\<close>
  "valid_ipv6 s =
     (CHR ''/'' \<notin> set s \<and>
      (let addr = takeWhile (\<lambda>c. c \<noteq> CHR ''%'') s;
           scope_id = drop (length addr + 1) s;
           parts = split_on (CHR '':'') addr
       in (if CHR ''%'' \<in> set s then scope_id \<noteq> [] \<and> CHR ''%'' \<notin> set scope_id else True) \<and>
          addr \<noteq> [] \<and> 3 \<le> length parts \<and>
          (if CHR ''.'' \<in> set (last parts)
           then valid_ipv4 (last parts) \<and> ipv6_parts_ok (butlast parts @ [''0'', ''0''])
           else ipv6_parts_ok parts)))"

definition check_bracketed_host :: "string \<Rightarrow> bool" where
  \<comment> \<open>\<^verbatim>\<open>_check_bracketed_host\<close> returns: the host matches \<^verbatim>\<open>\Av[a-fA-F0-9]+\..+\Z\<close>, or
      it does not start with \<^verbatim>\<open>v\<close> and is an IPv6 address, not an IPv4 address\<close>
  "check_bracketed_host host =
     (if prefix ''v'' host then
        (let hex = takeWhile is_hex_digit (tl host);
             rest = drop (length hex) (tl host)
         in hex \<noteq> [] \<and> take 1 rest = ''.'' \<and> drop 1 rest \<noteq> [])
      else \<not> valid_ipv4 host \<and> valid_ipv6 host)"

definition after_scheme :: "string \<Rightarrow> string" where
  "after_scheme url =
     (let pre = takeWhile (\<lambda>c. c \<noteq> CHR '':'') url
      in if length pre < length url \<and> pre \<noteq> [] \<and> is_ascii_alpha (hd url) \<and>
            list_all is_scheme_char pre
         then drop (length pre + 1) url else url)"

definition plain_netloc :: "string \<Rightarrow> pyexc + string" where
  "plain_netloc url =
     (let url1 = dropWhile (\<lambda>c. (of_char c :: nat) \<le> 32) url;
          url2 = filter (\<lambda>c. c \<noteq> CHR 0x09 \<and> c \<noteq> CHR 0x0D \<and> c \<noteq> CHR 0x0A) url1;
          rest = after_scheme url2
      in if take 2 rest = ''//'' then
           (let netloc = takeWhile (\<lambda>c. c \<noteq> CHR ''/'' \<and> c \<noteq> CHR ''?'' \<and> c \<noteq> CHR ''#'') (drop 2 rest);
                bracketed_host =
                  takeWhile (\<lambda>c. c \<noteq> CHR '']'') (drop 1 (dropWhile (\<lambda>c. c \<noteq> CHR ''['') netloc))
            in if (CHR ''['' \<in> set netloc \<and> CHR '']'' \<notin> set netloc) \<or>
                  (CHR '']'' \<in> set netloc \<and> CHR ''['' \<notin> set netloc)
               then Inl ValueError
               else if CHR ''['' \<in> set netloc \<and> CHR '']'' \<in> set netloc \<and>
                       \<not> check_bracketed_host bracketed_host
               then Inl ValueError
               else Inr netloc)
         else Inr [])"

subsection \<open>Title extraction\<close>

text \<open>
  The three patterns of \<^verbatim>\<open>_extract_title\<close> and the pattern of its \<^verbatim>\<open>re.sub\<close> are built
  from literal characters, one character of a class, a greedy or a lazy repetition of a
  class, and one capturing group. \<open>rx_match\<close> is the backtracking matcher of Python's
  \<^verbatim>\<open>re\<close> on such patterns: a greedy repetition tries the longest run first, a lazy one the
  shortest, and the first way that lets the rest of the pattern match is the match. It
  returns the text of the group and the input left after the match. \<open>Lit_i\<close> is a
  literal under \<^verbatim>\<open>re.IGNORECASE\<close>; \<open>Any_char\<close> is the dot under \<^verbatim>\<open>re.DOTALL\<close>.
\<close>

datatype char_class = Any_char | Not_char char

datatype rx_item =
    Lit char
  | Lit_i char
  | One char_class
  | Greedy char_class
  | Lazy char_class
  | Group_open
  | Group_close

fun in_class :: "char_class \<Rightarrow> char \<Rightarrow> bool" where
  "in_class Any_char x = True"
| "in_class (Not_char c) x = (x \<noteq> c)"

definition push :: "string option \<Rightarrow> char \<Rightarrow> string option" where
  \<comment> \<open>a matched character joins the text of the group while the group is open\<close>
  "push cap x = map_option (\<lambda>acc. acc @ [x]) cap"

fun rx_match ::
    "rx_item list \<Rightarrow> string \<Rightarrow> string option \<Rightarrow> string \<Rightarrow> (string \<times> string) option" where
  "rx_match [] s cap got = Some (got, s)"
| "rx_match (Group_open # p) s cap got = rx_match p s (Some []) got"
| "rx_match (Group_close # p) s cap got =
     rx_match p s None (case cap of None \<Rightarrow> got | Some acc \<Rightarrow> acc)"
| "rx_match (Lit c # p) [] cap got = None"
| "rx_match (Lit c # p) (x # xs) cap got =
     (if x = c then rx_match p xs (push cap x) got else None)"
| "rx_match (Lit_i c # p) [] cap got = None"
| "rx_match (Lit_i c # p) (x # xs) cap got =
     (if py_lower_char x = py_lower_char c then rx_match p xs (push cap x) got else None)"
| "rx_match (One k # p) [] cap got = None"
| "rx_match (One k # p) (x # xs) cap got =
     (if in_class k x then rx_match p xs (push cap x) got else None)"
| "rx_match (Greedy k # p) [] cap got = rx_match p [] cap got"
| "rx_match (Greedy k # p) (x # xs) cap got =
     (if in_class k x then
        (case rx_match (Greedy k # p) xs (push cap x) got of
           Some r \<Rightarrow> Some r
         | None \<Rightarrow> rx_match p (x # xs) cap got)
      else rx_match p (x # xs) cap got)"
| "rx_match (Lazy k # p) [] cap got = rx_match p [] cap got"
| "rx_match (Lazy k # p) (x # xs) cap got =
     (case rx_match p (x # xs) cap got of
        Some r \<Rightarrow> Some r
      | None \<Rightarrow> if in_class k x then rx_match (Lazy k # p) xs (push cap x) got else None)"

fun rx_search :: "rx_item list \<Rightarrow> string \<Rightarrow> string option" where
  \<comment> \<open>\<^verbatim>\<open>re.search(pattern, s)\<close>: \<^verbatim>\<open>group(1)\<close> of the match at the leftmost position that has
      one, \<open>None\<close> when there is none\<close>
  "rx_search p [] = map_option fst (rx_match p [] None [])"
| "rx_search p (x # xs) =
     (case rx_match p (x # xs) None [] of Some r \<Rightarrow> Some (fst r) | None \<Rightarrow> rx_search p xs)"

fun rx_remove :: "rx_item list \<Rightarrow> string \<Rightarrow> string" where
  \<comment> \<open>\<^verbatim>\<open>re.sub(pattern, '', s)\<close>: every match is left out, from left to right; where the
      pattern matches nothing the character is kept\<close>
  "rx_remove p [] = []"
| "rx_remove p (x # xs) =
     (case rx_match p (x # xs) None [] of
        None \<Rightarrow> x # rx_remove p xs
      | Some r \<Rightarrow>
          if length (snd r) < length (x # xs) then rx_remove p (snd r) else x # rx_remove p xs)"

function py_replace :: "string \<Rightarrow> string \<Rightarrow> string \<Rightarrow> string" where
  \<comment> \<open>\<^verbatim>\<open>s.replace(old, new)\<close>: the occurrences of \<open>old\<close> from left to right, not
      overlapping\<close>
  "py_replace old new [] = (if old = [] then new else [])"
| "py_replace old new (x # xs) =
     (if old = [] then new @ x # py_replace old new xs
      else if prefix old (x # xs) then new @ py_replace old new (drop (length old) (x # xs))
      else x # py_replace old new xs)"
  by pat_completeness auto
termination
  by (relation "measure (\<lambda>(old, new, s). length s)") (auto simp: neq_Nil_conv)

definition title_patterns :: "rx_item list list" where
  \<comment> \<open>\<^verbatim>\<open><title[^>]*>(.*?)</title>\<close>, then
      \<^verbatim>\<open><meta[^>]*property="og:title"[^>]*content="([^"]*)"\<close>, then
      \<^verbatim>\<open><h1[^>]*>(.*?)</h1>\<close>; the character \<open>CHR 0x22\<close> is the double quote\<close>
  "title_patterns =
     [map Lit_i ''<title'' @
        [Greedy (Not_char (CHR ''>'')), Lit (CHR ''>''), Group_open, Lazy Any_char, Group_close] @
        map Lit_i ''</title>'',
      map Lit_i ''<meta'' @ [Greedy (Not_char (CHR ''>''))] @
        map Lit_i ''property='' @ [Lit (CHR 0x22)] @ map Lit_i ''og:title'' @
        [Lit (CHR 0x22), Greedy (Not_char (CHR ''>''))] @
        map Lit_i ''content='' @
        [Lit (CHR 0x22), Group_open, Greedy (Not_char (CHR 0x22)), Group_close, Lit (CHR 0x22)],
      map Lit_i ''<h1'' @
        [Greedy (Not_char (CHR ''>'')), Lit (CHR ''>''), Group_open, Lazy Any_char, Group_close] @
        map Lit_i ''</h1>'']"

definition markup_pattern :: "rx_item list" where
  \<comment> \<open>\<^verbatim>\<open><[^>]+>\<close>\<close>
  "markup_pattern =
     [Lit (CHR ''<''), One (Not_char (CHR ''>'')), Greedy (Not_char (CHR ''>'')), Lit (CHR ''>'')]"

definition clean_title :: "string \<Rightarrow> string" where
  \<comment> \<open>lines 216 to 219: strip, drop the markup, replace the four entities in turn\<close>
  "clean_title g =
     py_replace ''&gt;'' ''>''
       (py_replace ''&lt;'' ''<''
         (py_replace ''&amp;'' ''&''
           (py_replace ''&quot;'' [CHR 0x22]
             (rx_remove markup_pattern (py_strip g)))))"

fun extract_from :: "rx_item list list \<Rightarrow> string \<Rightarrow> string option" where
  \<comment> \<open>the \<^verbatim>\<open>for\<close> loop of \<^verbatim>\<open>_extract_title\<close> over the patterns left\<close>
  "extract_from [] html = None"
| "extract_from (p # ps) html =
     (case rx_search p html of
        None \<Rightarrow> extract_from ps html
      | Some g \<Rightarrow>
          (let title = clean_title g
           in if title \<noteq> [] then Some title else extract_from ps html))"

definition extract_title :: "string \<Rightarrow> string option" where
  \<comment> \<open>\<^verbatim>\<open>_extract_title\<close>\<close>
  "extract_title html = extract_from title_patterns html"

section \<open>Automation hooks\<close>

text \<open>
  The values the hooks handle are Python's JSON-like values. A dictionary is the list of
  its items in insertion order. The operations are Python's on these values, with the
  exception each raises.
\<close>

datatype pyval =
    PNone
  | PBool bool
  | PInt int
  | PStr string
  | PList "pyval list"
  | PDict "(pyval \<times> pyval) list"

fun py_truthy :: "pyval \<Rightarrow> bool" where
  "py_truthy PNone = False"
| "py_truthy (PBool b) = b"
| "py_truthy (PInt i) = (i \<noteq> 0)"
| "py_truthy (PStr s) = (s \<noteq> [])"
| "py_truthy (PList xs) = (xs \<noteq> [])"
| "py_truthy (PDict d) = (d \<noteq> [])"

fun py_hashable :: "pyval \<Rightarrow> bool" where
  "py_hashable (PList xs) = False"
| "py_hashable (PDict d) = False"
| "py_hashable v = True"

fun py_num :: "pyval \<Rightarrow> int option" where
  "py_num (PBool b) = Some (if b then 1 else 0)"
| "py_num (PInt i) = Some i"
| "py_num v = None"

definition py_key_eq :: "pyval \<Rightarrow> pyval \<Rightarrow> bool" where
  \<comment> \<open>\<^verbatim>\<open>==\<close> on hashable values: \<^verbatim>\<open>True == 1\<close> and \<^verbatim>\<open>False == 0\<close>\<close>
  "py_key_eq a b =
     (case (py_num a, py_num b) of
        (Some x, Some y) \<Rightarrow> x = y
      | (None, None) \<Rightarrow> a = b
      | _ \<Rightarrow> False)"

definition dict_lookup :: "(pyval \<times> pyval) list \<Rightarrow> pyval \<Rightarrow> pyval option" where
  "dict_lookup d k = map_option snd (find (\<lambda>kv. py_key_eq (fst kv) k) d)"

fun dict_set :: "(pyval \<times> pyval) list \<Rightarrow> pyval \<Rightarrow> pyval \<Rightarrow> (pyval \<times> pyval) list" where
  \<comment> \<open>\<^verbatim>\<open>d[k] = v\<close>: the item of an equal key is replaced in place, a new key goes last\<close>
  "dict_set [] k v = [(k, v)]"
| "dict_set ((k', v') # d) k v =
     (if py_key_eq k' k then (k', v) # d else (k', v') # dict_set d k v)"

definition py_get :: "pyval \<Rightarrow> pyval \<Rightarrow> pyval \<Rightarrow> pyexc + pyval" where
  \<comment> \<open>\<^verbatim>\<open>obj.get(key, default)\<close>: only a dictionary has the method\<close>
  "py_get obj key dflt =
     (case obj of
        PDict d \<Rightarrow>
          (if py_hashable key
           then Inr (case dict_lookup d key of None \<Rightarrow> dflt | Some v \<Rightarrow> v)
           else Inl TypeError)
      | _ \<Rightarrow> Inl AttributeError)"

definition py_item :: "pyval \<Rightarrow> string \<Rightarrow> pyexc + pyval" where
  \<comment> \<open>\<^verbatim>\<open>obj['key']\<close> with a string key\<close>
  "py_item obj key =
     (case obj of
        PDict d \<Rightarrow> (case dict_lookup d (PStr key) of None \<Rightarrow> Inl KeyError | Some v \<Rightarrow> Inr v)
      | _ \<Rightarrow> Inl TypeError)"

definition py_iter :: "pyval \<Rightarrow> pyexc + pyval list" where
  \<comment> \<open>the items \<^verbatim>\<open>for x in obj\<close> visits: a dictionary gives its keys, a string its
      characters\<close>
  "py_iter obj =
     (case obj of
        PList xs \<Rightarrow> Inr xs
      | PDict d \<Rightarrow> Inr (map fst d)
      | PStr s \<Rightarrow> Inr (map (\<lambda>c. PStr [c]) s)
      | _ \<Rightarrow> Inl TypeError)"

fun dict_from_items :: "(pyval \<times> pyval) list \<Rightarrow> pyval list \<Rightarrow> pyexc + (pyval \<times> pyval) list" where
  \<comment> \<open>\<^verbatim>\<open>dict(iterable)\<close>: every element must itself give exactly two items, a hashable
      key and a value\<close>
  "dict_from_items d [] = Inr d"
| "dict_from_items d (x # xs) =
     (case py_iter x of
        Inl e \<Rightarrow> Inl TypeError
      | Inr [k, v] \<Rightarrow>
          (if py_hashable k then dict_from_items (dict_set d k v) xs else Inl TypeError)
      | Inr _ \<Rightarrow> Inl ValueError)"

definition py_dict :: "pyval \<Rightarrow> pyexc + (pyval \<times> pyval) list" where
  \<comment> \<open>\<^verbatim>\<open>dict(obj)\<close>: a copy of a dictionary, or a dictionary built from pairs\<close>
  "py_dict obj =
     (case obj of
        PDict d \<Rightarrow> Inr d
      | PList xs \<Rightarrow> dict_from_items [] xs
      | PStr s \<Rightarrow> dict_from_items [] (map (\<lambda>c. PStr [c]) s)
      | _ \<Rightarrow> Inl TypeError)"

definition py_set_add :: "pyval list \<Rightarrow> pyval \<Rightarrow> pyexc + pyval list" where
  \<comment> \<open>\<^verbatim>\<open>s.add(v)\<close> on a set kept as the list of its members: an unhashable value
      raises TypeError\<close>
  "py_set_add xs v =
     (if py_hashable v
      then Inr (if list_ex (\<lambda>x. py_key_eq x v) xs then xs else xs @ [v])
      else Inl TypeError)"

definition str_lower_is_true :: "pyval \<Rightarrow> bool" where
  \<comment> \<open>\<^verbatim>\<open>str(v).lower() == 'true'\<close>: \<^verbatim>\<open>str\<close> of \<^verbatim>\<open>True\<close> is \<^verbatim>\<open>'True'\<close>; \<^verbatim>\<open>str\<close> of
      \<^verbatim>\<open>None\<close>, of \<^verbatim>\<open>False\<close>, of an integer, a list or a dictionary never lowers to
      \<^verbatim>\<open>'true'\<close>\<close>
  "str_lower_is_true v =
     (case v of PStr s \<Rightarrow> py_lower s = ''true'' | PBool b \<Rightarrow> b | _ \<Rightarrow> False)"

record exec_plan =
  move :: pyval
  add_tags :: "pyval list"
  remove_tags :: "pyval list"
  favorite :: "bool option"
  fetch_forum_tags :: pyval

type_synonym call = "pyval \<times> exec_plan \<times> pyval"

text \<open>
  What a collaborator raises is a value of \<open>raised\<close>: \<open>Exc e\<close> is an instance of
  \<^verbatim>\<open>Exception\<close> whose \<^verbatim>\<open>str\<close> returns; \<open>Exc_str_raises x\<close> is an instance of
  \<^verbatim>\<open>Exception\<close> whose \<^verbatim>\<open>__str__\<close> raises \<open>x\<close>, so that formatting it in the handler's
  f-string raises \<open>x\<close>; \<open>Base_exc m\<close> is a \<^verbatim>\<open>BaseException\<close> that is no instance of
  \<^verbatim>\<open>Exception\<close> (\<^verbatim>\<open>KeyboardInterrupt\<close>, \<^verbatim>\<open>SystemExit\<close>, \<^verbatim>\<open>GeneratorExit\<close>), which
  \<^verbatim>\<open>except Exception\<close> does not catch. An exception of an operation of the hook itself
  (\<open>internal\<close>) is of the first kind.
\<close>

datatype raised = Exc pyexc | Exc_str_raises raised | Base_exc string

definition internal :: "pyexc + 'a \<Rightarrow> raised + 'a" where
  "internal m = (case m of Inl e \<Rightarrow> Inl (Exc e) | Inr x \<Rightarrow> Inr x)"

text \<open>
  The collaborators of the hooks are outside the repository; each is a parameter, with
  the exception it may raise: \<open>load_config\<close> is the outcome of \<^verbatim>\<open>load_config()\<close>,
  \<open>get_ruleset\<close> is \<^verbatim>\<open>rule_manager.get_ruleset\<close>, \<open>id_map_get\<close> is
  \<^verbatim>\<open>ctx.cache.id_map.get\<close>, \<open>load_ui_data\<close> is the outcome of \<^verbatim>\<open>load_ui_data()\<close>,
  \<open>evaluate c r\<close> is \<^verbatim>\<open>engine.evaluate(c, r, match_if_no_conditions=True)\<close>,
  \<open>apply_plan\<close> is \<^verbatim>\<open>executor.apply_plan\<close>, and \<open>ACT_FETCH_FORUM_TAGS\<close> is the
  constant of that name of \<^verbatim>\<open>core.automation.constants\<close>. Logging is taken not to raise.
\<close>

record collaborators =
  load_config :: "raised + pyval"
  get_ruleset :: "pyval \<Rightarrow> raised + pyval"
  id_map_get :: "pyval \<Rightarrow> raised + pyval"
  load_ui_data :: "raised + pyval"
  resolve_ui_key :: "pyval \<Rightarrow> raised + pyval"
  evaluate :: "pyval \<Rightarrow> pyval \<Rightarrow> raised + pyval"
  apply_plan :: "pyval \<Rightarrow> exec_plan \<Rightarrow> pyval \<Rightarrow> raised + pyval"
  ACT_FETCH_FORUM_TAGS :: string

datatype setup_outcome = Stop pyval | Evaluated pyval pyval

definition bind_exc :: "raised + 'a \<Rightarrow> ('a \<Rightarrow> raised + 'b) \<Rightarrow> raised + 'b" where
  \<comment> \<open>one statement after another: an exception of the first ends the block\<close>
  "bind_exc m f = (case m of Inl e \<Rightarrow> Inl e | Inr x \<Rightarrow> f x)"

definition hook_setup :: "collaborators \<Rightarrow> pyval \<Rightarrow> raised + setup_outcome" where
  \<comment> \<open>lines 22 to 53 of \<^verbatim>\<open>auto_run_rules_on_card\<close>, the same text as lines 96 to 123 of
      \<^verbatim>\<open>auto_run_forum_tags_on_link_update\<close>: \<open>Stop v\<close> is \<^verbatim>\<open>return v\<close>, and
      \<open>Evaluated actions ui_data\<close> goes on with \<^verbatim>\<open>plan_raw['actions']\<close> and \<^verbatim>\<open>ui_data\<close>\<close>
  "hook_setup env card_id =
     bind_exc (load_config env) (\<lambda>cfg.
     bind_exc (internal (py_get cfg (PStr ''active_automation_ruleset'') PNone)) (\<lambda>active_id.
     if \<not> py_truthy active_id then Inr (Stop PNone) else
     bind_exc (get_ruleset env active_id) (\<lambda>ruleset.
     if \<not> py_truthy ruleset then Inr (Stop PNone) else
     bind_exc (id_map_get env card_id) (\<lambda>card_obj.
     if \<not> py_truthy card_obj then Inr (Stop PNone) else
     bind_exc (load_ui_data env) (\<lambda>ui_data.
     bind_exc (internal (py_dict card_obj)) (\<lambda>context_data.
     bind_exc (resolve_ui_key env card_id) (\<lambda>ui_key.
     bind_exc (internal (py_get ui_data ui_key (PDict []))) (\<lambda>ui_info.
     bind_exc (internal (py_get ui_info (PStr ''summary'') (PStr []))) (\<lambda>summary.
     bind_exc (evaluate env (PDict (dict_set context_data (PStr ''ui_summary'') summary)) ruleset)
       (\<lambda>plan_raw.
     bind_exc (internal (py_item plan_raw ''actions'')) (\<lambda>actions.
     if \<not> py_truthy actions
     then Inr (Stop (PDict [(PStr ''run'', PBool True), (PStr ''actions'', PInt 0)]))
     else Inr (Evaluated actions ui_data))))))))))))"

definition empty_plan :: exec_plan where
  "empty_plan =
     \<lparr>move = PNone, add_tags = [], remove_tags = [], favorite = None, fetch_forum_tags = PNone\<rparr>"

fun build_plan :: "string \<Rightarrow> exec_plan \<Rightarrow> pyval list \<Rightarrow> pyexc + exec_plan" where
  \<comment> \<open>the \<^verbatim>\<open>for\<close> loop of \<^verbatim>\<open>auto_run_rules_on_card\<close> (lines 63 to 77)\<close>
  "build_plan fetch_type plan [] = Inr plan"
| "build_plan fetch_type plan (act # rest) =
     (case py_item act ''type'' of Inl e \<Rightarrow> Inl e | Inr t \<Rightarrow>
      case py_item act ''value'' of Inl e \<Rightarrow> Inl e | Inr v \<Rightarrow>
      if t = PStr ''move_folder'' then build_plan fetch_type (plan\<lparr>move := v\<rparr>) rest
      else if t = PStr ''add_tag'' then
        (case py_set_add (add_tags plan) v of
           Inl e \<Rightarrow> Inl e
         | Inr s \<Rightarrow> build_plan fetch_type (plan\<lparr>add_tags := s\<rparr>) rest)
      else if t = PStr ''remove_tag'' then
        (case py_set_add (remove_tags plan) v of
           Inl e \<Rightarrow> Inl e
         | Inr s \<Rightarrow> build_plan fetch_type (plan\<lparr>remove_tags := s\<rparr>) rest)
      else if t = PStr ''set_favorite'' then
        build_plan fetch_type (plan\<lparr>favorite := Some (str_lower_is_true v)\<rparr>) rest
      else if t = PStr fetch_type then build_plan fetch_type plan rest
      else build_plan fetch_type plan rest)"

definition run_result :: "pyval \<Rightarrow> pyval" where
  \<comment> \<open>\<^verbatim>\<open>{"run": True, "result": res}\<close>\<close>
  "run_result res = PDict [(PStr ''run'', PBool True), (PStr ''result'', res)]"

definition execute :: "collaborators \<Rightarrow> pyval \<Rightarrow> exec_plan \<Rightarrow> pyval \<Rightarrow> (raised + pyval) \<times> call list" where
  \<comment> \<open>\<^verbatim>\<open>res = executor.apply_plan(card_id, exec_plan, ui_data)\<close> and the \<^verbatim>\<open>return\<close> after
      it; the second component lists the calls of the executor\<close>
  "execute env card_id plan ui_data =
     (case apply_plan env card_id plan ui_data of
        Inl e \<Rightarrow> (Inl e, [(card_id, plan, ui_data)])
      | Inr res \<Rightarrow> (Inr (run_result res), [(card_id, plan, ui_data)]))"

definition rules_on_card_body :: "collaborators \<Rightarrow> pyval \<Rightarrow> (raised + pyval) \<times> call list" where
  \<comment> \<open>the \<^verbatim>\<open>try\<close> block of \<^verbatim>\<open>auto_run_rules_on_card\<close>\<close>
  "rules_on_card_body env card_id =
     (case hook_setup env card_id of
        Inl e \<Rightarrow> (Inl e, [])
      | Inr (Stop v) \<Rightarrow> (Inr v, [])
      | Inr (Evaluated actions ui_data) \<Rightarrow>
          (case internal (py_iter actions) of
             Inl e \<Rightarrow> (Inl e, [])
           | Inr acts \<Rightarrow>
               (case internal (build_plan (ACT_FETCH_FORUM_TAGS env) empty_plan acts) of
                  Inl e \<Rightarrow> (Inl e, [])
                | Inr plan \<Rightarrow> execute env card_id plan ui_data)))"

definition catch_all :: "(raised + pyval) \<times> call list \<Rightarrow> (raised + pyval) \<times> call list" where
  \<comment> \<open>\<^verbatim>\<open>except Exception as e:\<close> logs the f-string of \<^verbatim>\<open>e\<close> and returns \<^verbatim>\<open>None\<close>; an
      exception that is no instance of \<^verbatim>\<open>Exception\<close> is not caught, and one raised while
      \<^verbatim>\<open>e\<close> is formatted leaves the handler. \<open>Inl\<close> in the result is an exception that
      reaches the caller\<close>
  "catch_all r =
     (case fst r of
        Inl (Exc e) \<Rightarrow> (Inr PNone, snd r)
      | Inl (Exc_str_raises x) \<Rightarrow> (Inl x, snd r)
      | Inl (Base_exc m) \<Rightarrow> (Inl (Base_exc m), snd r)
      | Inr v \<Rightarrow> (Inr v, snd r))"

definition auto_run_rules_on_card :: "collaborators \<Rightarrow> pyval \<Rightarrow> (raised + pyval) \<times> call list" where
  "auto_run_rules_on_card env card_id = catch_all (rules_on_card_body env card_id)"

fun find_fetch_config :: "string \<Rightarrow> pyval list \<Rightarrow> pyexc + pyval" where
  \<comment> \<open>the \<^verbatim>\<open>for\<close> loop of \<^verbatim>\<open>auto_run_forum_tags_on_link_update\<close> (lines 126 to 134):
      the value of \<^verbatim>\<open>fetch_forum_tags_config\<close> after it\<close>
  "find_fetch_config fetch_type [] = Inr PNone"
| "find_fetch_config fetch_type (act # rest) =
     (case py_item act ''type'' of Inl e \<Rightarrow> Inl e | Inr t \<Rightarrow>
      if t = PStr fetch_type then
        (case py_item act ''value'' of Inl e \<Rightarrow> Inl e | Inr v \<Rightarrow>
         (case v of PDict d \<Rightarrow> Inr v | _ \<Rightarrow> Inr (PDict [])))
      else find_fetch_config fetch_type rest)"

definition no_fetch_result :: pyval where
  \<comment> \<open>\<^verbatim>\<open>{"run": True, "actions": 0, "reason": "no_fetch_forum_tags_action"}\<close>\<close>
  "no_fetch_result =
     PDict [(PStr ''run'', PBool True), (PStr ''actions'', PInt 0),
            (PStr ''reason'', PStr ''no_fetch_forum_tags_action'')]"

definition link_update_body :: "collaborators \<Rightarrow> pyval \<Rightarrow> (raised + pyval) \<times> call list" where
  \<comment> \<open>the \<^verbatim>\<open>try\<close> block of \<^verbatim>\<open>auto_run_forum_tags_on_link_update\<close>\<close>
  "link_update_body env card_id =
     (case hook_setup env card_id of
        Inl e \<Rightarrow> (Inl e, [])
      | Inr (Stop v) \<Rightarrow> (Inr v, [])
      | Inr (Evaluated actions ui_data) \<Rightarrow>
          (case internal (py_iter actions) of
             Inl e \<Rightarrow> (Inl e, [])
           | Inr acts \<Rightarrow>
               (case internal (find_fetch_config (ACT_FETCH_FORUM_TAGS env) acts) of
                  Inl e \<Rightarrow> (Inl e, [])
                | Inr fetch_forum_tags_config \<Rightarrow>
                    (if \<not> py_truthy fetch_forum_tags_config then (Inr no_fetch_result, [])
                     else execute env card_id
                            (empty_plan\<lparr>fetch_forum_tags := fetch_forum_tags_config\<rparr>) ui_data))))"

definition auto_run_forum_tags_on_link_update ::
    "collaborators \<Rightarrow> pyval \<Rightarrow> (raised + pyval) \<times> call list" where
  "auto_run_forum_tags_on_link_update env card_id = catch_all (link_update_body env card_id)"

section \<open>Notions of the specification and concrete inputs\<close>

fun dedup_first :: "'a list \<Rightarrow> 'a list" where
  \<comment> \<open>order-preserving deduplication: every value stays where it first occurs\<close>
  "dedup_first [] = []"
| "dedup_first (x # xs) = x # dedup_first (filter (\<lambda>y. y \<noteq> x) xs)"

definition substitute :: "'a tag_processor \<Rightarrow> 'a \<Rightarrow> 'a" where
  \<comment> \<open>substitution through the replace map, the identity where the map has no entry\<close>
  "substitute p t = (case replace_rules p t of None \<Rightarrow> t | Some v \<Rightarrow> v)"

definition inside_main :: "parser_state \<Rightarrow> string \<Rightarrow> bool" where
  \<comment> \<open>a div with class \<open>c\<close> opens inside the main container: the scanner is in it
      already, or this div is one\<close>
  "inside_main s c = (in_main_tags_container s \<or> py_in ''tags_e5a45e'' c)"

definition host_allowed :: "string \<Rightarrow> bool" where
  \<comment> \<open>the host equals a domain of the allow-list or is a subdomain of one\<close>
  "host_allowed h = list_ex (\<lambda>d. h = d \<or> suffix (''.'' @ d) h) NAOBAIJIN_DOMAINS"

definition pill_page :: "event list" where
  \<comment> \<open>a main container with two pills whose text is \<^verbatim>\<open>ab\<close> and a count badge between them\<close>
  "pill_page =
     [StartTag ''div'' [(''class'', Some ''tags_e5a45e'')],
      StartTag ''div'' [(''class'', Some ''pill_a2c9e8 small_a2c9e8 tagPill__9a337'')],
      StartTag ''div'' [(''class'', Some ''lineClamp1__4bd52'')],
      Data '' ab '', EndTag ''div'', EndTag ''div'',
      StartTag ''div'' [(''class'', Some ''pill_a2c9e8 small_a2c9e8 defaultColor__4bd52'')],
      Data ''+1'', EndTag ''div'',
      StartTag ''div'' [(''class'', Some ''pill_a2c9e8 small_a2c9e8'')],
      Data ''ab'', EndTag ''div'',
      EndTag ''div'']"

definition demo_fetcher :: fetcher_env where
  \<comment> \<open>a network whose first-page request fails and whose other pages are \<open>pill_page\<close>\<close>
  "demo_fetcher =
     \<lparr>urlparse_netloc = plain_netloc,
      http_get = (\<lambda>log url. if url = ''https://naobaijin.app/t/123/0''
                             then Inl (Raised ''timeout'') else Inr ''<title>T</title>''),
      html_events = (\<lambda>text. Inr pill_page),
      self_extract_title = extract_title\<rparr>"

definition fetch_action :: "pyval \<Rightarrow> pyval" where
  \<comment> \<open>\<^verbatim>\<open>{"type": "fetch_forum_tags", "value": v}\<close>\<close>
  "fetch_action v = PDict [(PStr ''type'', PStr ''fetch_forum_tags''), (PStr ''value'', v)]"

definition demo_collaborators :: "pyval \<Rightarrow> collaborators" where
  \<comment> \<open>an active ruleset, a cached card, and a rule engine that answers the given actions\<close>
  "demo_collaborators actions =
     \<lparr>load_config = Inr (PDict [(PStr ''active_automation_ruleset'', PStr ''r1'')]),
      get_ruleset = (\<lambda>i. Inr (PDict [(PStr ''id'', i)])),
      id_map_get = (\<lambda>c. Inr (PDict [(PStr ''id'', c)])),
      load_ui_data = Inr (PDict []),
      resolve_ui_key = (\<lambda>c. Inr c),
      evaluate = (\<lambda>c r. Inr (PDict [(PStr ''actions'', actions)])),
      apply_plan = (\<lambda>c p u. Inr (PStr ''done'')),
      ACT_FETCH_FORUM_TAGS = ''fetch_forum_tags''\<rparr>"

definition pill_state :: "int \<Rightarrow> parser_state" where
  \<comment> \<open>a scanner inside a pill at nested depth \<open>d\<close>, with text in the buffer\<close>
  "pill_state d =
     \<lparr>tags = [''cd''], in_tag_pill = True, current_tag_text = ['' ab'', '' ''], div_depth = d,
      expecting_text = True, in_main_tags_container = True, main_container_depth = 3\<rparr>"

definition failing_collaborators :: "raised + pyval \<Rightarrow> pyval \<Rightarrow> collaborators" where
  \<comment> \<open>as \<open>demo_collaborators\<close>, with the given outcome of \<^verbatim>\<open>load_config()\<close> and an
      executor that raises\<close>
  "failing_collaborators cfg actions =
     (demo_collaborators actions)
       \<lparr>load_config := cfg, apply_plan := (\<lambda>c p u. Inl (Exc (Raised ''disk full'')))\<rparr>"

definition opens_main :: "event \<Rightarrow> bool" where
  \<comment> \<open>the event is a div open whose class contains the primary-container marker\<close>
  "opens_main ev =
     (case ev of
        StartTag tag attrs \<Rightarrow>
          tag = ''div'' \<and>
          (case attrs_get_class attrs of None \<Rightarrow> False | Some c \<Rightarrow> py_in ''tags_e5a45e'' c)
      | _ \<Rightarrow> False)"

definition other_type :: "string \<Rightarrow> pyval \<Rightarrow> bool" where
  \<comment> \<open>the action has a \<^verbatim>\<open>type\<close>, and it is not the given one\<close>
  "other_type t act = (case py_item act ''type'' of Inl e \<Rightarrow> False | Inr v \<Rightarrow> v \<noteq> PStr t)"

definition three_actions :: pyval where
  \<comment> \<open>an \<^verbatim>\<open>add_tag\<close> action and two fetch-forum-tags actions\<close>
  "three_actions =
     PList [PDict [(PStr ''type'', PStr ''add_tag''), (PStr ''value'', PStr ''t'')],
            fetch_action (PDict [(PStr ''exclude'', PList [PStr ''other''])]),
            fetch_action (PDict [])]"

section \<open>The text operations\<close>

text \<open>
  \<open>py_in p s\<close> holds exactly when \<open>p\<close> occurs in \<open>s\<close> as a contiguous block.
\<close>

theorem py_in_iff: "py_in p s = (\<exists>pre post. s = pre @ p @ post)"
proof (induction s)
  case Nil
  show ?case by auto
next
  case (Cons c cs)
  show ?case
  proof
    assume "py_in p (c # cs)"
    then consider "prefix p (c # cs)" | "py_in p cs" by auto
    then show "\<exists>pre post. c # cs = pre @ p @ post"
    proof cases
      case 1
      then obtain post where "c # cs = p @ post" by (auto simp: prefix_def)
      then have "c # cs = [] @ p @ post" by simp
      then show ?thesis by blast
    next
      case 2
      with Cons obtain pre post where "cs = pre @ p @ post" by auto
      then have "c # cs = (c # pre) @ p @ post" by simp
      then show ?thesis by blast
    qed
  next
    assume "\<exists>pre post. c # cs = pre @ p @ post"
    then obtain pre post where eq: "c # cs = pre @ p @ post" by blast
    show "py_in p (c # cs)"
    proof (cases pre)
      case Nil
      with eq have "prefix p (c # cs)" by (simp add: prefix_def)
      then show ?thesis by simp
    next
      case (Cons a pre')
      with eq have "cs = pre' @ p @ post" by simp
      with Cons.IH have "py_in p cs" by blast
      then show ?thesis by simp
    qed
  qed
qed

lemma small_not_space: "\<not> py_isspace (CHR ''s'')"
  by (simp add: py_isspace_def)

lemma tag_class_match_here_iff:
  "tag_class_match_here s =
     (\<exists>ws post. s = ''pill_a2c9e8'' @ ws @ ''small_a2c9e8'' @ post \<and> ws \<noteq> [] \<and>
        list_all py_isspace ws)"
proof
  assume m: "tag_class_match_here s"
  define r where "r = drop (length ''pill_a2c9e8'') s"
  from m have p: "prefix ''pill_a2c9e8'' s" and ne: "r \<noteq> []" and sp: "py_isspace (hd r)"
    and q: "prefix ''small_a2c9e8'' (dropWhile py_isspace r)"
    by (simp_all add: tag_class_match_here_def r_def Let_def)
  from p have s: "s = ''pill_a2c9e8'' @ r"
    unfolding r_def by (metis append_eq_conv_conj prefix_def)
  from q obtain post where d: "dropWhile py_isspace r = ''small_a2c9e8'' @ post"
    by (auto simp: prefix_def)
  have r: "r = takeWhile py_isspace r @ ''small_a2c9e8'' @ post"
    using d by (metis takeWhile_dropWhile_id)
  have "takeWhile py_isspace r \<noteq> []"
    using ne sp by (cases r) auto
  moreover have "list_all py_isspace (takeWhile py_isspace r)"
    by (auto simp: list_all_iff dest: set_takeWhileD)
  ultimately show "\<exists>ws post. s = ''pill_a2c9e8'' @ ws @ ''small_a2c9e8'' @ post \<and> ws \<noteq> [] \<and>
        list_all py_isspace ws"
    using s r by metis
next
  assume "\<exists>ws post. s = ''pill_a2c9e8'' @ ws @ ''small_a2c9e8'' @ post \<and> ws \<noteq> [] \<and>
        list_all py_isspace ws"
  then obtain ws post where s: "s = ''pill_a2c9e8'' @ ws @ ''small_a2c9e8'' @ post"
    and ne: "ws \<noteq> []" and sp: "list_all py_isspace ws" by blast
  have d: "dropWhile py_isspace (ws @ ''small_a2c9e8'' @ post) = ''small_a2c9e8'' @ post"
    using sp small_not_space by (induction ws) simp_all
  have h: "py_isspace (hd (ws @ ''small_a2c9e8'' @ post))"
    using ne sp by (cases ws) simp_all
  have dr: "drop (length ''pill_a2c9e8'') s = ws @ ''small_a2c9e8'' @ post"
    unfolding s by simp
  have pr: "prefix ''pill_a2c9e8'' s"
    unfolding s by simp
  show "tag_class_match_here s"
    unfolding tag_class_match_here_def Let_def dr d using ne h pr by simp
qed

text \<open>
  The search for the pill pattern succeeds exactly when the class holds \<^verbatim>\<open>pill_a2c9e8\<close>,
  then one or more whitespace characters, then \<^verbatim>\<open>small_a2c9e8\<close>: the words of the regular
  expression \<^verbatim>\<open>pill_a2c9e8\s+small_a2c9e8\<close>.
\<close>

theorem tag_class_pattern_search_iff:
  "tag_class_pattern_search s =
     (\<exists>pre ws post. s = pre @ ''pill_a2c9e8'' @ ws @ ''small_a2c9e8'' @ post \<and> ws \<noteq> [] \<and>
        list_all py_isspace ws)"
proof (induction s)
  case Nil
  show ?case by simp
next
  case (Cons c cs)
  show ?case
  proof
    assume "tag_class_pattern_search (c # cs)"
    then consider "tag_class_match_here (c # cs)" | "tag_class_pattern_search cs" by auto
    then show "\<exists>pre ws post. c # cs = pre @ ''pill_a2c9e8'' @ ws @ ''small_a2c9e8'' @ post \<and>
        ws \<noteq> [] \<and> list_all py_isspace ws"
    proof cases
      case 1
      then obtain ws post where "c # cs = [] @ ''pill_a2c9e8'' @ ws @ ''small_a2c9e8'' @ post"
        "ws \<noteq> []" "list_all py_isspace ws"
        unfolding tag_class_match_here_iff by auto
      then show ?thesis by blast
    next
      case 2
      with Cons obtain pre ws post where "cs = pre @ ''pill_a2c9e8'' @ ws @ ''small_a2c9e8'' @ post"
        "ws \<noteq> []" "list_all py_isspace ws" by auto
      then have "c # cs = (c # pre) @ ''pill_a2c9e8'' @ ws @ ''small_a2c9e8'' @ post"
        by simp
      with \<open>ws \<noteq> []\<close> \<open>list_all py_isspace ws\<close> show ?thesis by blast
    qed
  next
    assume "\<exists>pre ws post. c # cs = pre @ ''pill_a2c9e8'' @ ws @ ''small_a2c9e8'' @ post \<and>
        ws \<noteq> [] \<and> list_all py_isspace ws"
    then obtain pre ws post where
      eq: "c # cs = pre @ ''pill_a2c9e8'' @ ws @ ''small_a2c9e8'' @ post"
      and ws: "ws \<noteq> []" "list_all py_isspace ws" by blast
    show "tag_class_pattern_search (c # cs)"
    proof (cases pre)
      case Nil
      with eq ws have "tag_class_match_here (c # cs)"
        unfolding tag_class_match_here_iff by auto
      then show ?thesis by simp
    next
      case (Cons a pre')
      with eq have "cs = pre' @ ''pill_a2c9e8'' @ ws @ ''small_a2c9e8'' @ post" by simp
      with ws Cons.IH have "tag_class_pattern_search cs" by blast
      then show ?thesis by simp
    qed
  qed
qed



definition interrupted_collaborators :: "pyval \<Rightarrow> collaborators" where
  \<comment> \<open>as \<open>demo_collaborators\<close>, with an executor that raises \<^verbatim>\<open>KeyboardInterrupt\<close>\<close>
  "interrupted_collaborators actions =
     (demo_collaborators actions)
       \<lparr>apply_plan := (\<lambda>c p u. Inl (Base_exc ''KeyboardInterrupt''))\<rparr>"

section \<open>Evaluation of concrete runs\<close>

lemmas scanner_defs = parser_init_def handle_event_def handle_starttag_def starttag_pill_def
  starttag_main_def attrs_get_class_def handle_endtag_def endtag_pill_def endtag_main_def
  finish_pill_def handle_data_def tag_class_match_here_def py_isspace_def py_strip_def
  inside_main_def pill_page_def

section \<open>TagProcessor: filtering, replacing, merging\<close>

lemma dedup_first_filter: "dedup_first (filter P xs) = filter P (dedup_first xs)"
proof (induction xs rule: dedup_first.induct)
  case 1
  show ?case by simp
next
  case (2 x xs)
  show ?case
  proof (cases "P x")
    case True
    then show ?thesis using 2 by (simp add: conj_commute)
  next
    case False
    then have "filter P xs = filter P (filter (\<lambda>y. y \<noteq> x) xs)"
      by (auto intro: filter_cong)
    then show ?thesis using 2 False by (simp add: conj_commute)
  qed
qed

lemma distinct_dedup_first: "distinct (dedup_first xs)"
  by (induction xs rule: dedup_first.induct) (simp_all add: dedup_first_filter)

lemma merge_loop_dedup:
  "merge_loop acc xs = acc @ filter (\<lambda>x. x \<notin> set acc) (dedup_first xs)"
proof (induction xs arbitrary: acc)
  case Nil
  show ?case by simp
next
  case (Cons x xs)
  show ?case
  proof (cases "x \<in> set acc")
    case True
    then have "filter (\<lambda>y. y \<notin> set acc) (filter (\<lambda>y. y \<noteq> x) (dedup_first xs))
        = filter (\<lambda>y. y \<notin> set acc) (dedup_first xs)"
      by (auto intro: filter_cong)
    then show ?thesis using True Cons by (simp add: dedup_first_filter)
  next
    case False
    have "filter (\<lambda>y. y \<notin> set (acc @ [x])) (dedup_first xs)
        = filter (\<lambda>y. y \<notin> set acc) (filter (\<lambda>y. y \<noteq> x) (dedup_first xs))"
      by (auto intro: filter_cong)
    then show ?thesis using False Cons by (simp add: dedup_first_filter)
  qed
qed

lemma process_loop_merge_loop:
  "process_loop p acc ts =
     merge_loop acc (map (substitute p) (filter (\<lambda>t. t \<notin> exclude_tags p) ts))"
  by (induction ts arbitrary: acc) (simp_all add: substitute_def Let_def)

lemma distinct_merge_loop: "distinct acc \<Longrightarrow> distinct (merge_loop acc xs)"
  by (induction xs arbitrary: acc) simp_all

lemma prefix_merge_loop: "prefix acc (merge_loop acc xs)"
  by (simp add: merge_loop_dedup)

lemma distinct_process: "distinct (process p ts)"
  by (simp add: process_def distinct_merge_loop process_loop_merge_loop)

text \<open>
  Claim C7. \<^verbatim>\<open>process\<close> visits the tags in order, skips the excluded ones, substitutes
  the others through the replace map (identity where the map has no entry) and keeps the
  first occurrence of every value after substitution: the result is the order-preserving
  deduplication of the substituted, non-excluded tags. In particular
  \<^verbatim>\<open>process(["a","b","c"], exclude={"b"}, replace={"c":"z"})\<close> is \<^verbatim>\<open>["a","z"]\<close>.
\<close>

theorem process_order_preserving_dedup:
  "process p ts =
     dedup_first (map (substitute p) (filter (\<lambda>t. t \<notin> exclude_tags p) ts))
   \<and> process \<lparr>exclude_tags = {''b''}, replace_rules = [''c'' \<mapsto> ''z'']\<rparr> [''a'', ''b'', ''c'']
       = [''a'', ''z'']"
proof
  show "process p ts =
     dedup_first (map (substitute p) (filter (\<lambda>t. t \<notin> exclude_tags p) ts))"
    by (simp add: process_def process_loop_merge_loop merge_loop_dedup)
  show "process \<lparr>exclude_tags = {''b''}, replace_rules = [''c'' \<mapsto> ''z'']\<rparr> [''a'', ''b'', ''c'']
       = [''a'', ''z'']"
    by (simp add: process_def)
qed

theorem process_order_preserving_dedup_witness:
  "process \<lparr>exclude_tags = {''x''}, replace_rules = [''a'' \<mapsto> ''b'']\<rparr>
     [''a'', ''x'', ''b'', ''a'', ''c''] = [''b'', ''c'']
   \<and> dedup_first (map (substitute \<lparr>exclude_tags = {''x''}, replace_rules = [''a'' \<mapsto> ''b'']\<rparr>)
        (filter (\<lambda>t. t \<notin> {''x''}) [''a'', ''x'', ''b'', ''a'', ''c''])) = [''b'', ''c'']"
  using process_order_preserving_dedup
    [of "\<lparr>exclude_tags = {''x''}, replace_rules = [''a'' \<mapsto> ''b'']\<rparr>"
        "[''a'', ''x'', ''b'', ''a'', ''c'']"]
  by (simp add: substitute_def)

section \<open>The scanner\<close>

lemma handle_event_distinct:
  "distinct (tags s) \<Longrightarrow> handle_event s ev = Inr s' \<Longrightarrow> distinct (tags s')"
  by (cases ev)
     (auto simp: handle_event_def handle_starttag_def starttag_pill_def starttag_main_def
        handle_endtag_def endtag_pill_def endtag_main_def finish_pill_def handle_data_def Let_def
        split: if_splits option.splits)

lemma feed_events_distinct:
  "distinct (tags s) \<Longrightarrow> feed_events s evs = Inr s' \<Longrightarrow> distinct (tags s')"
proof (induction evs arbitrary: s)
  case Nil
  then show ?case by simp
next
  case (Cons ev evs)
  then show ?case
    by (auto split: sum.splits dest: handle_event_distinct)
qed

lemma handle_event_prefix:
  "handle_event s ev = Inr s' \<Longrightarrow> prefix (tags s) (tags s')"
  by (cases ev)
     (auto simp: handle_event_def handle_starttag_def starttag_pill_def starttag_main_def
        handle_endtag_def endtag_pill_def endtag_main_def finish_pill_def handle_data_def Let_def
        split: if_splits option.splits)

lemma feed_events_prefix:
  "feed_events s evs = Inr s' \<Longrightarrow> prefix (tags s) (tags s')"
proof (induction evs arbitrary: s)
  case Nil
  then show ?case by simp
next
  case (Cons ev evs)
  from Cons.prems obtain s1 where
    step: "handle_event s ev = Inr s1" and rest: "feed_events s1 evs = Inr s'"
    by (auto split: sum.splits)
  from handle_event_prefix[OF step] Cons.IH[OF rest] show ?case
    by (rule prefix_order.trans)
qed

lemma feed_events_append:
  "feed_events s (evs @ evs2) =
     (case feed_events s evs of Inl e \<Rightarrow> Inl e | Inr s' \<Rightarrow> feed_events s' evs2)"
  by (induction evs arbitrary: s) (auto split: sum.splits)

lemma feed_pill_page:
  "feed_events parser_init pill_page =
     Inr \<lparr>tags = [''ab''], in_tag_pill = False, current_tag_text = [], div_depth = 0,
          expecting_text = True, in_main_tags_container = False, main_container_depth = 0\<rparr>"
  by (simp add: scanner_defs)

text \<open>
  Claim C6, as amended. The scanner's output and the output of \<^verbatim>\<open>process\<close> have no
  duplicate, for every input, and the scanner only ever appends (the tags after a longer
  run extend those after a shorter one). \<^verbatim>\<open>merge_tags\<close> in mode \<^verbatim>\<open>merge\<close> starts with
  the existing tags and has no duplicate when the existing tags have none (when there are
  no existing tags, always); in mode \<^verbatim>\<open>replace\<close> it returns the new tags as they are.
\<close>

theorem tag_lists_duplicate_free:
  "(feed_events parser_init evs = Inr s \<longrightarrow> distinct (tags s)) \<and>
   (feed_events parser_init evs = Inr s \<and> feed_events parser_init (evs @ evs2) = Inr s2
      \<longrightarrow> prefix (tags s) (tags s2)) \<and>
   distinct (process p ts) \<and>
   (distinct ex \<longrightarrow> distinct (merge_tags (Some ex) new ''merge'')) \<and>
   prefix ex (merge_tags (Some ex) new ''merge'') \<and>
   distinct (merge_tags None new ''merge'') \<and>
   merge_tags exo new ''replace'' = new"
proof -
  have a: "feed_events parser_init evs = Inr s \<longrightarrow> distinct (tags s)"
    using feed_events_distinct[of parser_init evs s] by (simp add: parser_init_def)
  have b: "feed_events parser_init evs = Inr s \<and> feed_events parser_init (evs @ evs2) = Inr s2
      \<longrightarrow> prefix (tags s) (tags s2)"
    using feed_events_prefix[of s evs2 s2] by (auto simp: feed_events_append)
  have c: "distinct ex \<longrightarrow> distinct (merge_tags (Some ex) new ''merge'')"
    by (simp add: merge_tags_def distinct_merge_loop)
  have d: "prefix ex (merge_tags (Some ex) new ''merge'')"
    by (simp add: merge_tags_def prefix_merge_loop)
  have e: "distinct (merge_tags None new ''merge'')"
    by (simp add: merge_tags_def distinct_merge_loop)
  have f: "merge_tags exo new ''replace'' = new"
    by (simp add: merge_tags_def)
  from a b c d e f distinct_process[of p ts] show ?thesis by blast
qed

theorem tag_lists_duplicate_free_witness:
  "feed_events parser_init pill_page =
     Inr \<lparr>tags = [''ab''], in_tag_pill = False, current_tag_text = [], div_depth = 0,
          expecting_text = True, in_main_tags_container = False, main_container_depth = 0\<rparr> \<and>
   distinct [''ab''] \<and>
   distinct [''a'', ''b''] \<and>
   merge_tags (Some [''a'', ''b'']) [''b'', ''c'', ''c''] ''merge'' = [''a'', ''b'', ''c''] \<and>
   distinct (merge_tags (Some [''a'', ''b'']) [''b'', ''c'', ''c''] ''merge'') \<and>
   merge_tags (Some [''a'']) [''x''] ''replace'' = [''x'']"
  using feed_pill_page
    tag_lists_duplicate_free
      [of pill_page
          "\<lparr>tags = [''ab''], in_tag_pill = False, current_tag_text = [], div_depth = 0,
            expecting_text = True, in_main_tags_container = False, main_container_depth = 0\<rparr>"
          "[]" _ _ _ "[''a'', ''b'']" "[''b'', ''c'', ''c'']" "Some [''a'']"]
  by (simp add: merge_tags_def)

theorem merge_tags_duplicates_counterexample:
  "\<not> distinct (merge_tags (Some [''a'']) [''x'', ''x''] ''replace'') \<and>
   \<not> distinct (merge_tags (Some [''a'', ''a'']) [''b''] ''merge'')"
  by (simp add: merge_tags_def)

text \<open>
  Claim C5, as amended. A div open event whose class attribute is a string containing the
  primary-container marker sets the state to IN_MAIN_CONTAINER with depth counter 1, from
  OUTSIDE and also when the scanner is in the container already (the counter is set
  back to 1, not incremented). A div open event whose class is a string without the marker
  increments the counter by 1 while IN_MAIN_CONTAINER and changes nothing of the two
  fields while OUTSIDE. Every div close event while IN_MAIN_CONTAINER decrements the
  counter, and the state returns to OUTSIDE exactly when it reaches 0.
\<close>

theorem main_container_depth_tracking:
  "(attrs_get_class attrs = Some c \<longrightarrow>
      (\<exists>s'. handle_starttag s ''div'' attrs = Inr s' \<and>
         (if py_in ''tags_e5a45e'' c
          then in_main_tags_container s' \<and> main_container_depth s' = 1
          else in_main_tags_container s' = in_main_tags_container s \<and>
               main_container_depth s' =
                 (if in_main_tags_container s then main_container_depth s + 1
                  else main_container_depth s))))
   \<and> (in_main_tags_container s \<longrightarrow>
        main_container_depth (handle_endtag s ''div'') = main_container_depth s - 1 \<and>
        in_main_tags_container (handle_endtag s ''div'') = (main_container_depth s \<noteq> 1))
   \<and> (\<not> in_main_tags_container s \<longrightarrow>
        main_container_depth (handle_endtag s ''div'') = main_container_depth s \<and>
        \<not> in_main_tags_container (handle_endtag s ''div''))"
  by (auto simp: handle_starttag_def starttag_pill_def starttag_main_def
        handle_endtag_def endtag_pill_def endtag_main_def finish_pill_def Let_def)

theorem main_container_depth_tracking_witness:
  "attrs_get_class [(''class'', Some ''x tags_e5a45e'')] = Some ''x tags_e5a45e'' \<and>
   py_in ''tags_e5a45e'' ''x tags_e5a45e'' \<and>
   (\<exists>s'. handle_starttag parser_init ''div'' [(''class'', Some ''x tags_e5a45e'')] = Inr s' \<and>
      in_main_tags_container s' \<and> main_container_depth s' = 1) \<and>
   attrs_get_class [] = Some [] \<and>
   in_main_tags_container (parser_init\<lparr>in_main_tags_container := True, main_container_depth := 2\<rparr>) \<and>
   (\<exists>s'. handle_starttag
            (parser_init\<lparr>in_main_tags_container := True, main_container_depth := 2\<rparr>) ''div'' []
          = Inr s' \<and> in_main_tags_container s' \<and> main_container_depth s' = 3) \<and>
   main_container_depth
     (handle_endtag (parser_init\<lparr>in_main_tags_container := True, main_container_depth := 2\<rparr>)
        ''div'') = 1 \<and>
   \<not> in_main_tags_container
       (handle_endtag (parser_init\<lparr>in_main_tags_container := True, main_container_depth := 1\<rparr>)
          ''div'')"
  using main_container_depth_tracking
      [of "[(''class'', Some ''x tags_e5a45e'')]" "''x tags_e5a45e''" parser_init]
    main_container_depth_tracking
      [of "[]" "[]" "parser_init\<lparr>in_main_tags_container := True, main_container_depth := 2\<rparr>"]
    main_container_depth_tracking
      [of "[]" "[]" "parser_init\<lparr>in_main_tags_container := True, main_container_depth := 1\<rparr>"]
  by (simp add: attrs_get_class_def parser_init_def)

theorem main_container_marker_again_counterexample:
  "feed_events parser_init
     [StartTag ''div'' [(''class'', Some ''tags_e5a45e'')], StartTag ''div'' []]
     = Inr (parser_init\<lparr>in_main_tags_container := True, main_container_depth := 2\<rparr>)
   \<and> handle_starttag (parser_init\<lparr>in_main_tags_container := True, main_container_depth := 2\<rparr>)
        ''div'' [(''class'', Some ''tags_e5a45e'')]
     = Inr (parser_init\<lparr>in_main_tags_container := True, main_container_depth := 1\<rparr>)"
  by (simp add: scanner_defs)

text \<open>
  Claim C1, as amended. A div open event that arrives inside the main container with a
  class that matches the pill pattern and lacks the exclusion marker enters IN_PILL with
  depth counter 1 and an empty text buffer, whether or not the scanner is IN_PILL already;
  no other div open event enters IN_PILL. While IN_PILL, a div open event that arrives
  inside the main container with a class that does not match the pill pattern increments
  the depth counter by 1. While IN_PILL, every div close event decrements the counter;
  when it reaches 0 the pill is finalized: the accumulated text is trimmed and appended
  to the result exactly when it is non-empty, does not start with \<^verbatim>\<open>+\<close> and is not in
  the result already, and the scanner leaves IN_PILL with an empty buffer.
\<close>

theorem pill_depth_tracking:
  "(attrs_get_class attrs = Some c \<longrightarrow>
      (\<exists>s'. handle_starttag s ''div'' attrs = Inr s' \<and>
         (inside_main s c \<and> tag_class_pattern_search c \<and> \<not> py_in ''defaultColor__4bd52'' c \<longrightarrow>
            in_tag_pill s' \<and> div_depth s' = 1 \<and> current_tag_text s' = [] \<and> tags s' = tags s) \<and>
         (in_tag_pill s \<and> inside_main s c \<and> \<not> tag_class_pattern_search c \<longrightarrow>
            in_tag_pill s' \<and> div_depth s' = div_depth s + 1 \<and>
            current_tag_text s' = current_tag_text s \<and> tags s' = tags s) \<and>
         (\<not> in_tag_pill s \<and> in_tag_pill s' \<longrightarrow>
            inside_main s c \<and> tag_class_pattern_search c \<and> \<not> py_in ''defaultColor__4bd52'' c)))
   \<and> (in_tag_pill s \<and> div_depth s \<noteq> 1 \<longrightarrow>
        in_tag_pill (handle_endtag s ''div'') \<and>
        div_depth (handle_endtag s ''div'') = div_depth s - 1 \<and>
        current_tag_text (handle_endtag s ''div'') = current_tag_text s \<and>
        tags (handle_endtag s ''div'') = tags s)
   \<and> (in_tag_pill s \<and> div_depth s = 1 \<longrightarrow>
        \<not> in_tag_pill (handle_endtag s ''div'') \<and>
        div_depth (handle_endtag s ''div'') = 0 \<and>
        current_tag_text (handle_endtag s ''div'') = [] \<and>
        tags (handle_endtag s ''div'') =
          (let t = py_strip (concat (current_tag_text s))
           in if t \<noteq> [] \<and> \<not> prefix ''+'' t \<and> t \<notin> set (tags s) then tags s @ [t] else tags s))"
  by (auto simp: handle_starttag_def starttag_pill_def starttag_main_def inside_main_def
        handle_endtag_def endtag_pill_def endtag_main_def finish_pill_def Let_def)

theorem pill_depth_tracking_witness:
  "attrs_get_class [] = Some [] \<and>
   in_tag_pill (pill_state 2) \<and> inside_main (pill_state 2) [] \<and>
   \<not> tag_class_pattern_search [] \<and>
   handle_starttag (pill_state 2) ''div'' []
     = Inr ((pill_state 3)\<lparr>main_container_depth := 4\<rparr>) \<and>
   inside_main (parser_init\<lparr>in_main_tags_container := True, main_container_depth := 1\<rparr>)
     ''pill_a2c9e8 small_a2c9e8'' \<and>
   tag_class_pattern_search ''pill_a2c9e8 small_a2c9e8'' \<and>
   \<not> py_in ''defaultColor__4bd52'' ''pill_a2c9e8 small_a2c9e8'' \<and>
   handle_starttag (parser_init\<lparr>in_main_tags_container := True, main_container_depth := 1\<rparr>)
       ''div'' [(''class'', Some ''pill_a2c9e8 small_a2c9e8'')]
     = Inr (parser_init\<lparr>in_main_tags_container := True, main_container_depth := 2,
              in_tag_pill := True, div_depth := 1, expecting_text := True\<rparr>) \<and>
   div_depth (handle_endtag (pill_state 2) ''div'') = 1 \<and>
   in_tag_pill (handle_endtag (pill_state 2) ''div'') \<and>
   div_depth (pill_state 1) = 1 \<and>
   tags (handle_endtag (pill_state 1) ''div'') = [''cd'', ''ab''] \<and>
   \<not> in_tag_pill (handle_endtag (pill_state 1) ''div'')"
  using pill_depth_tracking [of "[]" "[]" "pill_state 2"]
    pill_depth_tracking
      [of "[(''class'', Some ''pill_a2c9e8 small_a2c9e8'')]" "''pill_a2c9e8 small_a2c9e8''"
          "parser_init\<lparr>in_main_tags_container := True, main_container_depth := 1\<rparr>"]
    pill_depth_tracking [of "[]" "[]" "pill_state 1"]
  by (simp add: scanner_defs pill_state_def)

theorem pill_reentry_counterexample:
  "feed_events parser_init
     [StartTag ''div'' [(''class'', Some ''tags_e5a45e'')],
      StartTag ''div'' [(''class'', Some ''pill_a2c9e8 small_a2c9e8'')],
      Data ''ab'',
      StartTag ''div'' []]
     = Inr \<lparr>tags = [], in_tag_pill = True, current_tag_text = [''ab''], div_depth = 2,
            expecting_text = True, in_main_tags_container = True, main_container_depth = 3\<rparr>
   \<and> handle_starttag
        \<lparr>tags = [], in_tag_pill = True, current_tag_text = [''ab''], div_depth = 2,
         expecting_text = True, in_main_tags_container = True, main_container_depth = 3\<rparr>
        ''div'' [(''class'', Some ''pill_a2c9e8 small_a2c9e8'')]
     = Inr \<lparr>tags = [], in_tag_pill = True, current_tag_text = [], div_depth = 1,
            expecting_text = True, in_main_tags_container = True, main_container_depth = 4\<rparr>"
  by (simp add: scanner_defs)

section \<open>The fetcher\<close>

lemmas fetch_defs = is_valid_naobaijin_url_def NAOBAIJIN_DOMAINS_def py_lower_def
  py_lower_char_def plain_netloc_def after_scheme_def is_scheme_char_def is_ascii_alpha_def
  suffix_to_prefix py_rstrip_slash_def host_allowed_def demo_fetcher_def

lemma extract_title_page: "extract_title ''<title>T</title>'' = Some ''T''"
  by code_simp

lemma try_fetch_log: "snd (try_fetch env log url) = log @ [url]"
  by (simp add: try_fetch_def Let_def split: sum.splits)

lemma try_fetch_http_error:
  "http_get env log url = Inl e \<Longrightarrow>
   try_fetch env log url = ((None, None, Some (Msg_exception e)), log @ [url])"
  by (simp add: try_fetch_def)

lemma py_rstrip_slash_decomp:
  "\<exists>n. url = py_rstrip_slash url @ replicate n (CHR ''/'')"
proof -
  have "rev url = takeWhile (\<lambda>c. c = CHR ''/'') (rev url) @ dropWhile (\<lambda>c. c = CHR ''/'') (rev url)"
    by simp
  then have "url = rev (dropWhile (\<lambda>c. c = CHR ''/'') (rev url)) @ rev (takeWhile (\<lambda>c. c = CHR ''/'') (rev url))"
    by (metis rev_append rev_rev_ident)
  moreover have "rev (takeWhile (\<lambda>c. c = CHR ''/'') (rev url))
      = replicate (length (takeWhile (\<lambda>c. c = CHR ''/'') (rev url))) (CHR ''/'')"
  proof -
    have "\<forall>x \<in> set (rev (takeWhile (\<lambda>c. c = CHR ''/'') (rev url))). x = CHR ''/''"
      by (auto dest: set_takeWhileD)
    then show ?thesis
      by (metis length_rev replicate_eqI)
  qed
  ultimately show ?thesis
    unfolding py_rstrip_slash_def by metis
qed

lemma py_rstrip_slash_last:
  "py_rstrip_slash url = [] \<or> last (py_rstrip_slash url) \<noteq> CHR ''/''"
proof (cases "dropWhile (\<lambda>c. c = CHR ''/'') (rev url)")
  case Nil
  then show ?thesis by (simp add: py_rstrip_slash_def)
next
  case (Cons a as)
  then have "a \<noteq> CHR ''/''"
    by (metis (mono_tags, lifting) hd_dropWhile list.sel(1) list.distinct(1))
  then show ?thesis using Cons by (simp add: py_rstrip_slash_def)
qed

lemma suffix_www: "suffix ''www.naobaijin.app'' s \<Longrightarrow> suffix ''naobaijin.app'' s"
proof -
  assume "suffix ''www.naobaijin.app'' s"
  then obtain zs where "s = zs @ ''www.naobaijin.app''"
    by (auto simp: suffix_def)
  then have "s = (zs @ ''www.'') @ ''naobaijin.app''"
    by simp
  then show ?thesis
    unfolding suffix_def by blast
qed

text \<open>
  Claim C2 (the code departs from it). The validation accepts every URL whose lowered
  netloc ends with a domain of the allow-list, with no dot required before the domain:
  the host \<^verbatim>\<open>evilnaobaijin.app\<close> is neither an allow-list domain nor a subdomain of one,
  and \<^verbatim>\<open>is_valid_naobaijin_url\<close> returns true for it.
\<close>

theorem is_valid_accepts_foreign_suffix_host:
  "plain_netloc ''https://evilnaobaijin.app/t/1'' = Inr ''evilnaobaijin.app'' \<and>
   host_allowed ''evilnaobaijin.app'' = False \<and>
   is_valid_naobaijin_url plain_netloc ''https://evilnaobaijin.app/t/1'' = True"
  by (simp add: fetch_defs)

text \<open>
  Claim C3. For a URL the validation accepts, \<^verbatim>\<open>fetch_tags\<close> strips the trailing slashes,
  requests the normalized URL with \<^verbatim>\<open>/0\<close> appended and, when that attempt yields a
  non-empty tag list, returns success with these tags and the title of attempt 1, without
  a second request. Otherwise it requests the bare normalized URL; when this attempt
  yields tags it returns success with the title of attempt 2, or of attempt 1 when
  attempt 2 has no title or an empty one. When neither attempt yields tags it returns
  the failure with the fixed message and the title of attempt 1, or of attempt 2 when
  attempt 1 has none. A network failure of attempt 1 does not prevent attempt 2.
\<close>

theorem fetch_tags_two_attempts:
  assumes valid: "is_valid_naobaijin_url (urlparse_netloc env) url"
    and first: "try_fetch env [] (py_rstrip_slash url @ ''/0'') = ((tags1, title1, error1), log1)"
    and second: "try_fetch env [py_rstrip_slash url @ ''/0''] (py_rstrip_slash url)
                   = ((tags2, title2, error2), log2)"
  shows "(\<exists>n. url = py_rstrip_slash url @ replicate n (CHR ''/'')) \<and>
         (py_rstrip_slash url = [] \<or> last (py_rstrip_slash url) \<noteq> CHR ''/'') \<and>
         fetch_tags env url =
           (if tags_truthy tags1 then
              (\<lparr>success = True, result_tags = tags_list tags1, error = None, title = title1\<rparr>,
               [py_rstrip_slash url @ ''/0''])
            else if tags_truthy tags2 then
              (\<lparr>success = True, result_tags = tags_list tags2, error = None,
                title = (if title2 = None \<or> title2 = Some [] then title1 else title2)\<rparr>,
               [py_rstrip_slash url @ ''/0'', py_rstrip_slash url])
            else
              (\<lparr>success = False, result_tags = [], error = Some Msg_tags_not_found,
                title = (if title1 = None \<or> title1 = Some [] then title2 else title1)\<rparr>,
               [py_rstrip_slash url @ ''/0'', py_rstrip_slash url])) \<and>
         (tags_truthy tags1 = (\<exists>t ts. tags1 = Some (t # ts) \<and> tags_list tags1 = t # ts)) \<and>
         (tags_truthy tags2 = (\<exists>t ts. tags2 = Some (t # ts) \<and> tags_list tags2 = t # ts)) \<and>
         ((\<exists>e. http_get env [] (py_rstrip_slash url @ ''/0'') = Inl e) \<longrightarrow>
            snd (fetch_tags env url) = [py_rstrip_slash url @ ''/0'', py_rstrip_slash url])"
proof -
  have l1: "log1 = [py_rstrip_slash url @ ''/0'']"
    using try_fetch_log[of env "[]" "py_rstrip_slash url @ ''/0''"] first by simp
  have l2: "log2 = [py_rstrip_slash url @ ''/0'', py_rstrip_slash url]"
    using try_fetch_log[of env "[py_rstrip_slash url @ ''/0'']" "py_rstrip_slash url"] second
    by simp
  have t1: "title_or title2 title1 = (if title2 = None \<or> title2 = Some [] then title1 else title2)"
    by (auto simp: title_or_def split: option.splits)
  have t2: "title_or title1 title2 = (if title1 = None \<or> title1 = Some [] then title2 else title1)"
    by (auto simp: title_or_def split: option.splits)
  have main: "fetch_tags env url =
           (if tags_truthy tags1 then
              (\<lparr>success = True, result_tags = tags_list tags1, error = None, title = title1\<rparr>,
               [py_rstrip_slash url @ ''/0''])
            else if tags_truthy tags2 then
              (\<lparr>success = True, result_tags = tags_list tags2, error = None,
                title = (if title2 = None \<or> title2 = Some [] then title1 else title2)\<rparr>,
               [py_rstrip_slash url @ ''/0'', py_rstrip_slash url])
            else
              (\<lparr>success = False, result_tags = [], error = Some Msg_tags_not_found,
                title = (if title1 = None \<or> title1 = Some [] then title2 else title1)\<rparr>,
               [py_rstrip_slash url @ ''/0'', py_rstrip_slash url]))"
    using valid first second l1 l2 by (simp add: fetch_tags_def Let_def t1 t2)
  have tr1: "tags_truthy tags1 = (\<exists>t ts. tags1 = Some (t # ts) \<and> tags_list tags1 = t # ts)"
    by (cases tags1) (auto simp: tags_truthy_def tags_list_def neq_Nil_conv)
  have tr2: "tags_truthy tags2 = (\<exists>t ts. tags2 = Some (t # ts) \<and> tags_list tags2 = t # ts)"
    by (cases tags2) (auto simp: tags_truthy_def tags_list_def neq_Nil_conv)
  have net: "(\<exists>e. http_get env [] (py_rstrip_slash url @ ''/0'') = Inl e) \<longrightarrow>
            snd (fetch_tags env url) = [py_rstrip_slash url @ ''/0'', py_rstrip_slash url]"
  proof
    assume "\<exists>e. http_get env [] (py_rstrip_slash url @ ''/0'') = Inl e"
    then obtain e where "http_get env [] (py_rstrip_slash url @ ''/0'') = Inl e" ..
    then have "tags1 = None"
      using first try_fetch_http_error[of env "[]" "py_rstrip_slash url @ ''/0''" e] by simp
    then have "\<not> tags_truthy tags1" by (simp add: tags_truthy_def)
    then show "snd (fetch_tags env url) = [py_rstrip_slash url @ ''/0'', py_rstrip_slash url]"
      using main by simp
  qed
  show ?thesis
    using py_rstrip_slash_decomp[of url] py_rstrip_slash_last[of url] main tr1 tr2 net by blast
qed

theorem fetch_tags_two_attempts_witness:
  "is_valid_naobaijin_url (urlparse_netloc demo_fetcher) ''https://naobaijin.app/t/123/'' \<and>
   py_rstrip_slash ''https://naobaijin.app/t/123/'' = ''https://naobaijin.app/t/123'' \<and>
   try_fetch demo_fetcher [] ''https://naobaijin.app/t/123/0''
     = ((None, None, Some (Msg_exception (Raised ''timeout''))),
        [''https://naobaijin.app/t/123/0'']) \<and>
   try_fetch demo_fetcher [''https://naobaijin.app/t/123/0''] ''https://naobaijin.app/t/123''
     = ((Some [''ab''], Some ''T'', None),
        [''https://naobaijin.app/t/123/0'', ''https://naobaijin.app/t/123'']) \<and>
   fetch_tags demo_fetcher ''https://naobaijin.app/t/123/''
     = (\<lparr>success = True, result_tags = [''ab''], error = None, title = Some ''T''\<rparr>,
        [''https://naobaijin.app/t/123/0'', ''https://naobaijin.app/t/123''])"
proof -
  have v: "is_valid_naobaijin_url (urlparse_netloc demo_fetcher) ''https://naobaijin.app/t/123/''"
    by (simp add: fetch_defs)
  have r: "py_rstrip_slash ''https://naobaijin.app/t/123/'' = ''https://naobaijin.app/t/123''"
    by (simp add: py_rstrip_slash_def)
  have f: "try_fetch demo_fetcher [] (py_rstrip_slash ''https://naobaijin.app/t/123/'' @ ''/0'')
     = ((None, None, Some (Msg_exception (Raised ''timeout''))),
        [''https://naobaijin.app/t/123/0''])"
    by (simp add: r try_fetch_def demo_fetcher_def)
  have s: "try_fetch demo_fetcher [py_rstrip_slash ''https://naobaijin.app/t/123/'' @ ''/0'']
       (py_rstrip_slash ''https://naobaijin.app/t/123/'')
     = ((Some [''ab''], Some ''T'', None),
        [''https://naobaijin.app/t/123/0'', ''https://naobaijin.app/t/123''])"
    by (simp add: r try_fetch_def demo_fetcher_def feed_pill_page extract_title_page)
  show ?thesis
    using fetch_tags_two_attempts[OF v f s] v r f s
    by (simp add: tags_truthy_def tags_list_def)
qed

text \<open>
  Claim C8. For every URL that fails the validation, \<^verbatim>\<open>fetch_tags\<close> returns the fixed
  failure result (success false, no tags, the invalid-URL message, title \<^verbatim>\<open>None\<close>) and
  makes no request.
\<close>

theorem fetch_tags_invalid_url:
  "\<not> is_valid_naobaijin_url (urlparse_netloc env) url \<Longrightarrow>
   fetch_tags env url =
     (\<lparr>success = False, result_tags = [], error = Some Msg_invalid_url, title = None\<rparr>, [])"
  by (simp add: fetch_tags_def)

theorem fetch_tags_invalid_url_witness:
  "\<not> is_valid_naobaijin_url (urlparse_netloc demo_fetcher) ''https://example.com/t/123'' \<and>
   fetch_tags demo_fetcher ''https://example.com/t/123'' =
     (\<lparr>success = False, result_tags = [], error = Some Msg_invalid_url, title = None\<rparr>, [])"
proof -
  have v: "\<not> is_valid_naobaijin_url (urlparse_netloc demo_fetcher) ''https://example.com/t/123''"
    by (simp add: fetch_defs)
  show ?thesis
    using fetch_tags_invalid_url[OF v] v by simp
qed

text \<open>
  Claim C10. In every result of \<^verbatim>\<open>fetch_tags\<close>, success is true exactly when the tag list
  is non-empty (so every failure carries the empty list), and the error is \<^verbatim>\<open>None\<close>
  exactly when success is true.
\<close>

theorem fetch_tags_result_invariant:
  "success (fst (fetch_tags env url)) = (result_tags (fst (fetch_tags env url)) \<noteq> []) \<and>
   (success (fst (fetch_tags env url)) \<or> result_tags (fst (fetch_tags env url)) = []) \<and>
   (error (fst (fetch_tags env url)) = None) = success (fst (fetch_tags env url))"
  by (auto simp: fetch_tags_def Let_def tags_truthy_def tags_list_def
      split: prod.splits option.splits)

theorem fetch_tags_result_invariant_witness:
  "success (fst (fetch_tags demo_fetcher ''https://naobaijin.app/t/123/'')) \<and>
   result_tags (fst (fetch_tags demo_fetcher ''https://naobaijin.app/t/123/'')) = [''ab''] \<and>
   error (fst (fetch_tags demo_fetcher ''https://naobaijin.app/t/123/'')) = None \<and>
   \<not> success (fst (fetch_tags demo_fetcher ''https://example.com/t/123'')) \<and>
   result_tags (fst (fetch_tags demo_fetcher ''https://example.com/t/123'')) = [] \<and>
   error (fst (fetch_tags demo_fetcher ''https://example.com/t/123'')) = Some Msg_invalid_url"
proof -
  have a: "fetch_tags demo_fetcher ''https://naobaijin.app/t/123/''
     = (\<lparr>success = True, result_tags = [''ab''], error = None, title = Some ''T''\<rparr>,
        [''https://naobaijin.app/t/123/0'', ''https://naobaijin.app/t/123''])"
    by (simp add: fetch_tags_def fetch_defs try_fetch_def feed_pill_page tags_truthy_def
        tags_list_def title_or_def extract_title_page)
  have b: "fetch_tags demo_fetcher ''https://example.com/t/123'' =
     (\<lparr>success = False, result_tags = [], error = Some Msg_invalid_url, title = None\<rparr>, [])"
    by (simp add: fetch_tags_def fetch_defs)
  show ?thesis
    using fetch_tags_result_invariant[of demo_fetcher "''https://naobaijin.app/t/123/''"]
      fetch_tags_result_invariant[of demo_fetcher "''https://example.com/t/123''"] a b
    by simp
qed

section \<open>The hooks\<close>

lemmas hook_defs = auto_run_forum_tags_on_link_update_def auto_run_rules_on_card_def
  catch_all_def link_update_body_def rules_on_card_body_def hook_setup_def bind_exc_def
  internal_def demo_collaborators_def failing_collaborators_def interrupted_collaborators_def
  fetch_action_def py_get_def py_item_def
  py_iter_def py_dict_def dict_lookup_def py_key_eq_def no_fetch_result_def execute_def
  run_result_def empty_plan_def py_set_add_def str_lower_is_true_def other_type_def
  three_actions_def



lemma catch_all_base: "fst x = Inl (Base_exc m) \<Longrightarrow> catch_all x = (Inl (Base_exc m), snd x)"
  by (simp add: catch_all_def)











text \<open>
  Claim C4 (the code departs from it). With an action list whose only action is a
  fetch-forum-tags action with a value that is not a mapping, or with an empty mapping,
  the link-update hook returns the \<^verbatim>\<open>no_fetch_forum_tags_action\<close> result and never calls
  the executor; with a non-empty mapping the executor is called with a plan that holds
  this configuration only.
\<close>

theorem link_update_empty_config_skips_executor:
  "auto_run_forum_tags_on_link_update
     (demo_collaborators (PList [fetch_action (PStr ''x'')])) (PStr ''card1'')
     = (Inr no_fetch_result, []) \<and>
   auto_run_forum_tags_on_link_update
     (demo_collaborators (PList [fetch_action (PDict [])])) (PStr ''card1'')
     = (Inr no_fetch_result, []) \<and>
   auto_run_forum_tags_on_link_update
     (demo_collaborators (PList [fetch_action (PDict [(PStr ''exclude'', PList [])])]))
     (PStr ''card1'')
     = (Inr (run_result (PStr ''done'')),
        [(PStr ''card1'',
          empty_plan\<lparr>fetch_forum_tags := PDict [(PStr ''exclude'', PList [])]\<rparr>,
          PDict [])])"
  by (simp add: hook_defs)




section \<open>Further properties\<close>

text \<open>
  A div whose \<^verbatim>\<open>class\<close> attribute is written without a value makes \<^verbatim>\<open>handle_starttag\<close>
  raise TypeError; the run of the scanner ends there, and \<^verbatim>\<open>_try_fetch\<close> reports the
  page as one with no tags and no title.
\<close>

theorem valueless_class_raises:
  "attrs_get_class attrs = None \<Longrightarrow>
   handle_starttag s ''div'' attrs = Inl TypeError \<and>
   feed_events s (StartTag ''div'' attrs # evs) = Inl TypeError \<and>
   (http_get env log url = Inr text \<and> html_events env text = Inr (StartTag ''div'' attrs # evs)
      \<longrightarrow> try_fetch env log url = ((None, None, Some (Msg_exception TypeError)), log @ [url]))"
  by (simp add: handle_starttag_def handle_event_def try_fetch_def)

theorem valueless_class_raises_witness:
  "attrs_get_class [(''class'', None)] = None \<and>
   handle_starttag parser_init ''div'' [(''class'', None)] = Inl TypeError \<and>
   feed_events parser_init (StartTag ''div'' [(''class'', None)] # pill_page) = Inl TypeError"
proof -
  have a: "attrs_get_class [(''class'', None)] = None"
    by (simp add: attrs_get_class_def)
  show ?thesis
    using valueless_class_raises[OF a, of parser_init pill_page] a by simp
qed

text \<open>
  A document in which no div carries the primary-container marker yields no tag.
\<close>

lemma outside_stays_outside:
  "\<not> opens_main ev \<Longrightarrow> \<not> in_main_tags_container s \<Longrightarrow> \<not> in_tag_pill s \<Longrightarrow>
   handle_event s ev = Inr s' \<Longrightarrow>
   \<not> in_main_tags_container s' \<and> \<not> in_tag_pill s' \<and> tags s' = tags s"
  by (cases ev)
     (auto simp: opens_main_def handle_event_def handle_starttag_def starttag_pill_def
        starttag_main_def handle_endtag_def endtag_pill_def endtag_main_def handle_data_def
        split: if_splits option.splits)

lemma outside_run:
  "\<not> list_ex opens_main evs \<Longrightarrow> \<not> in_main_tags_container s \<Longrightarrow> \<not> in_tag_pill s \<Longrightarrow>
   feed_events s evs = Inr s' \<Longrightarrow> tags s' = tags s"
proof (induction evs arbitrary: s)
  case Nil
  then show ?case by simp
next
  case (Cons ev evs)
  from Cons.prems(4) obtain s1 where
    step: "handle_event s ev = Inr s1" and rest: "feed_events s1 evs = Inr s'"
    by (auto split: sum.splits)
  from Cons.prems(1) have here: "\<not> opens_main ev" and later: "\<not> list_ex opens_main evs"
    by simp_all
  from outside_stays_outside[OF here Cons.prems(2) Cons.prems(3) step]
  have "\<not> in_main_tags_container s1" "\<not> in_tag_pill s1" "tags s1 = tags s"
    by simp_all
  with Cons.IH[OF later _ _ rest] show ?case by simp
qed

theorem no_main_container_no_tags:
  "\<not> list_ex opens_main evs \<Longrightarrow> feed_events parser_init evs = Inr s \<Longrightarrow> tags s = []"
  using outside_run[of evs parser_init s] by (simp add: parser_init_def)

theorem no_main_container_no_tags_witness:
  "\<not> list_ex opens_main (tl pill_page) \<and>
   feed_events parser_init (tl pill_page) = Inr parser_init \<and>
   tags parser_init = []"
proof -
  have a: "\<not> list_ex opens_main (tl pill_page)"
    by (simp add: opens_main_def scanner_defs)
  have b: "feed_events parser_init (tl pill_page) = Inr parser_init"
    by (simp add: scanner_defs)
  show ?thesis
    using no_main_container_no_tags[OF a b] a b by simp
qed

text \<open>
  \<^verbatim>\<open>merge_tags\<close> in any mode but \<^verbatim>\<open>replace\<close> keeps the existing tags in their order and
  appends the new tags that are not among them, each once, in the order of their first
  occurrence; \<^verbatim>\<open>merge(["a","b"], ["b","c"], "merge")\<close> is \<^verbatim>\<open>["a","b","c"]\<close> and
  \<^verbatim>\<open>merge(["a"], ["x"], "replace")\<close> is \<^verbatim>\<open>["x"]\<close>.
\<close>

theorem merge_tags_merge_mode:
  "(mode \<noteq> ''replace'' \<longrightarrow>
      merge_tags (Some ex) new mode = ex @ filter (\<lambda>t. t \<notin> set ex) (dedup_first new) \<and>
      merge_tags None new mode = dedup_first new) \<and>
   merge_tags (Some [''a'', ''b'']) [''b'', ''c''] ''merge'' = [''a'', ''b'', ''c''] \<and>
   merge_tags (Some [''a'']) [''x''] ''replace'' = [''x'']"
  by (simp add: merge_tags_def merge_loop_dedup)

theorem merge_tags_merge_mode_witness:
  "''merge'' \<noteq> ''replace'' \<and>
   merge_tags (Some [''a'', ''b'']) [''c'', ''b'', ''c'', ''d''] ''merge''
     = [''a'', ''b'', ''c'', ''d''] \<and>
   [''a'', ''b''] @ filter (\<lambda>t. t \<notin> set [''a'', ''b'']) (dedup_first [''c'', ''b'', ''c'', ''d''])
     = [''a'', ''b'', ''c'', ''d'']"
  using merge_tags_merge_mode[of "''merge''" "[''a'', ''b'']" "[''c'', ''b'', ''c'', ''d'']"]
  by simp

text \<open>
  The import hook never realizes a fetch-forum-tags action: every plan it hands to the
  executor has no fetch configuration.
\<close>

lemma build_plan_keeps_fetch:
  "build_plan ft plan acts = Inr plan' \<Longrightarrow> fetch_forum_tags plan' = fetch_forum_tags plan"
proof (induction acts arbitrary: plan)
  case Nil
  then show ?case by simp
next
  case (Cons act acts)
  from Cons.prems obtain plan1 where
    "build_plan ft plan1 acts = Inr plan'" and "fetch_forum_tags plan1 = fetch_forum_tags plan"
    by (auto split: sum.splits if_splits)
  with Cons.IH[of plan1] show ?case by simp
qed

theorem import_hook_skips_fetch_action:
  "(c, plan, u) \<in> set (snd (auto_run_rules_on_card env card_id)) \<Longrightarrow>
   fetch_forum_tags plan = PNone"
proof -
  assume call: "(c, plan, u) \<in> set (snd (auto_run_rules_on_card env card_id))"
  have same: "snd (auto_run_rules_on_card env card_id) = snd (rules_on_card_body env card_id)"
    by (simp add: auto_run_rules_on_card_def catch_all_def split: sum.splits raised.splits)
  from call obtain actions ui_data acts plan0 where
    "build_plan (ACT_FETCH_FORUM_TAGS env) empty_plan acts = Inr plan0" and
    "(c, plan, u) \<in> set (snd (execute env card_id plan0 ui_data))"
    unfolding same rules_on_card_body_def
    by (auto simp: internal_def split: sum.splits setup_outcome.splits)
  then have "plan = plan0" and "fetch_forum_tags plan0 = fetch_forum_tags empty_plan"
    using build_plan_keeps_fetch[of "ACT_FETCH_FORUM_TAGS env" empty_plan acts plan0]
    by (auto simp: execute_def split: sum.splits)
  then show ?thesis by (simp add: empty_plan_def)
qed

theorem import_hook_skips_fetch_action_witness:
  "snd (auto_run_rules_on_card (demo_collaborators three_actions) (PStr ''card1''))
     = [(PStr ''card1'', empty_plan\<lparr>add_tags := [PStr ''t'']\<rparr>, PDict [])] \<and>
   fetch_forum_tags (empty_plan\<lparr>add_tags := [PStr ''t'']\<rparr>) = PNone"
proof -
  have a: "snd (auto_run_rules_on_card (demo_collaborators three_actions) (PStr ''card1''))
     = [(PStr ''card1'', empty_plan\<lparr>add_tags := [PStr ''t'']\<rparr>, PDict [])]"
    by (simp add: hook_defs)
  have b: "(PStr ''card1'', empty_plan\<lparr>add_tags := [PStr ''t'']\<rparr>, PDict [])
       \<in> set (snd (auto_run_rules_on_card (demo_collaborators three_actions) (PStr ''card1'')))"
    by (simp add: a)
  show ?thesis
    using import_hook_skips_fetch_action[OF b] a by simp
qed

text \<open>
  The link-update hook uses the first fetch-forum-tags action only: when the actions
  before it have other types and its value is a non-empty mapping, the executor is called
  once, with a plan that holds this mapping and nothing else, whatever actions follow;
  the hook returns the executor's result, or \<^verbatim>\<open>None\<close> when the executor raises an
  instance of \<^verbatim>\<open>Exception\<close>.
\<close>

lemma find_fetch_config_first:
  "list_all (other_type ft) pre \<Longrightarrow> py_item act ''type'' = Inr (PStr ft) \<Longrightarrow>
   py_item act ''value'' = Inr v \<Longrightarrow>
   find_fetch_config ft (pre @ act # rest) = Inr (case v of PDict d \<Rightarrow> v | _ \<Rightarrow> PDict [])"
  by (induction pre) (auto simp: other_type_def split: sum.splits pyval.splits)

theorem link_update_uses_first_fetch_action:
  assumes "hook_setup env card_id = Inr (Evaluated (PList (pre @ act # rest)) ui_data)"
    and "list_all (other_type (ACT_FETCH_FORUM_TAGS env)) pre"
    and "py_item act ''type'' = Inr (PStr (ACT_FETCH_FORUM_TAGS env))"
    and "py_item act ''value'' = Inr (PDict d)"
    and "d \<noteq> []"
  shows "auto_run_forum_tags_on_link_update env card_id =
           ((case apply_plan env card_id (empty_plan\<lparr>fetch_forum_tags := PDict d\<rparr>) ui_data of
               Inl (Exc e) \<Rightarrow> Inr PNone
             | Inl (Exc_str_raises x) \<Rightarrow> Inl x
             | Inl (Base_exc m) \<Rightarrow> Inl (Base_exc m)
             | Inr res \<Rightarrow> Inr (run_result res)),
            [(card_id, empty_plan\<lparr>fetch_forum_tags := PDict d\<rparr>, ui_data)])"
  using assms find_fetch_config_first[OF assms(2) assms(3) assms(4), of rest]
  by (simp add: auto_run_forum_tags_on_link_update_def link_update_body_def py_iter_def
      internal_def execute_def catch_all_def split: sum.splits raised.splits)

theorem link_update_uses_first_fetch_action_witness:
  "hook_setup (demo_collaborators three_actions) (PStr ''card1'') =
     Inr (Evaluated
            (PList ([PDict [(PStr ''type'', PStr ''add_tag''), (PStr ''value'', PStr ''t'')]] @
                    fetch_action (PDict [(PStr ''exclude'', PList [PStr ''other''])]) #
                    [fetch_action (PDict [])]))
            (PDict [])) \<and>
   auto_run_forum_tags_on_link_update (demo_collaborators three_actions) (PStr ''card1'') =
     (Inr (run_result (PStr ''done'')),
      [(PStr ''card1'',
        empty_plan\<lparr>fetch_forum_tags := PDict [(PStr ''exclude'', PList [PStr ''other''])]\<rparr>,
        PDict [])])"
proof -
  have a: "hook_setup (demo_collaborators three_actions) (PStr ''card1'') =
     Inr (Evaluated
            (PList ([PDict [(PStr ''type'', PStr ''add_tag''), (PStr ''value'', PStr ''t'')]] @
                    fetch_action (PDict [(PStr ''exclude'', PList [PStr ''other''])]) #
                    [fetch_action (PDict [])]))
            (PDict []))"
    by (simp add: hook_defs)
  have b: "list_all (other_type (ACT_FETCH_FORUM_TAGS (demo_collaborators three_actions)))
             [PDict [(PStr ''type'', PStr ''add_tag''), (PStr ''value'', PStr ''t'')]]"
    by (simp add: hook_defs)
  have c: "py_item (fetch_action (PDict [(PStr ''exclude'', PList [PStr ''other''])])) ''type''
             = Inr (PStr (ACT_FETCH_FORUM_TAGS (demo_collaborators three_actions)))"
    by (simp add: hook_defs)
  have d: "py_item (fetch_action (PDict [(PStr ''exclude'', PList [PStr ''other''])])) ''value''
             = Inr (PDict [(PStr ''exclude'', PList [PStr ''other''])])"
    by (simp add: hook_defs)
  have e: "[(PStr ''exclude'', PList [PStr ''other''])] \<noteq> []"
    by simp
  have f: "apply_plan (demo_collaborators three_actions) =  (\<lambda>c p u. Inr (PStr ''done''))"
    by (simp add: demo_collaborators_def)
  show ?thesis
    using link_update_uses_first_fetch_action[OF a b c d e] a f by simp
qed

text \<open>
  What the validation accepts, for any URL parser: the non-empty URLs that parse and whose
  lowered netloc ends with \<^verbatim>\<open>naobaijin.app\<close>. The result is a boolean in every case: a
  parse failure gives false.
\<close>

theorem is_valid_naobaijin_url_suffix:
  "is_valid_naobaijin_url parse url =
     (url \<noteq> [] \<and> (\<exists>n. parse url = Inr n \<and> suffix ''naobaijin.app'' (py_lower n)))"
  by (cases "parse url")
     (auto simp: is_valid_naobaijin_url_def NAOBAIJIN_DOMAINS_def Let_def dest: suffix_www)

text \<open>
  \<^verbatim>\<open>_extract_title\<close> returns \<^verbatim>\<open>None\<close> or a non-empty string, never the empty string. It
  takes the first pattern whose cleaned match is non-empty: an empty \<^verbatim>\<open>title\<close> element
  falls through to the first heading, whose markup is dropped, and the entities are
  replaced in turn, so that \<^verbatim>\<open>&amp;lt;\<close> ends as \<^verbatim>\<open><\<close>.
\<close>

lemma extract_from_nonempty: "extract_from ps html \<noteq> Some []"
  by (induction ps) (auto simp: Let_def split: option.splits)

theorem extract_title_nonempty:
  "extract_title html \<noteq> Some [] \<and>
   extract_title ''<title> </title><h1 class=x>Head<b>x</b></h1>'' = Some ''Headx'' \<and>
   extract_title ''<TITLE lang=en> A &amp; B &amp;lt; </TITLE>'' = Some ''A & B <'' \<and>
   extract_title ''no title'' = None"
proof -
  have a: "extract_title html \<noteq> Some []"
    by (simp add: extract_title_def extract_from_nonempty)
  have b: "extract_title ''<title> </title><h1 class=x>Head<b>x</b></h1>'' = Some ''Headx''"
    by code_simp
  have c: "extract_title ''<TITLE lang=en> A &amp; B &amp;lt; </TITLE>'' = Some ''A & B <''"
    by code_simp
  have d: "extract_title ''no title'' = None"
    by code_simp
  from a b c d show ?thesis by blast
qed

end
